theory Spec2Isabelle
  imports Main
begin

section \<open>Python strings\<close>

text \<open>
  A Python \<open>str\<close> is modelled as a \<open>string\<close>. Every \<open>char\<close> stands for one code
  point below 256 (the Latin-1 range of Unicode), so \<open>length\<close> counts code points as
  Python's \<open>len\<close> does. The functions below are the builtins of \<open>str\<close> on that range.
\<close>

definition py_isspace :: "char \<Rightarrow> bool" where
  \<comment> \<open>\<open>str.isspace\<close> on one code point: TAB..CR, FS..US, space, NEL and NBSP.\<close>
  "py_isspace c =
     (let n = (of_char c :: nat)
      in (9 \<le> n \<and> n \<le> 13) \<or> (28 \<le> n \<and> n \<le> 32) \<or> n = 133 \<or> n = 160)"

definition py_strip :: "string \<Rightarrow> string" where
  \<comment> \<open>\<open>s.strip()\<close>: leading and trailing whitespace removed.\<close>
  "py_strip s = rev (dropWhile py_isspace (rev (dropWhile py_isspace s)))"

definition py_lower_char :: "char \<Rightarrow> char" where
  \<comment> \<open>\<open>str.lower\<close> on one code point below 256: A..Z and the Latin-1 capitals.\<close>
  "py_lower_char c =
     (let n = (of_char c :: nat)
      in if (65 \<le> n \<and> n \<le> 90) \<or> (192 \<le> n \<and> n \<le> 222 \<and> n \<noteq> 215)
         then char_of (n + 32) else c)"

definition py_lower :: "string \<Rightarrow> string" where
  "py_lower s = map py_lower_char s"

fun startswith :: "string \<Rightarrow> string \<Rightarrow> bool" where
  \<comment> \<open>\<open>s.startswith(p)\<close>, written \<open>startswith p s\<close>.\<close>
  "startswith [] s = True"
| "startswith (a # p) [] = False"
| "startswith (a # p) (b # s) = (a = b \<and> startswith p s)"

fun py_in :: "string \<Rightarrow> string \<Rightarrow> bool" where
  \<comment> \<open>\<open>p in s\<close> on strings: \<open>p\<close> occurs in \<open>s\<close> as a contiguous substring.\<close>
  "py_in p [] = (p = [])"
| "py_in p (b # s) = (startswith p (b # s) \<or> py_in p s)"

fun py_join :: "string \<Rightarrow> string list \<Rightarrow> string" where
  \<comment> \<open>\<open>sep.join(xs)\<close>\<close>
  "py_join sep [] = []"
| "py_join sep [x] = x"
| "py_join sep (x # y # ys) = x @ sep @ py_join sep (y # ys)"

definition digit_char :: "nat \<Rightarrow> char" where
  "digit_char d = ''0123456789'' ! d"

function py_str_nat :: "nat \<Rightarrow> string" where
  \<comment> \<open>\<open>str(n)\<close> for a non-negative integer: its decimal digits.\<close>
  "py_str_nat n =
     (if n < 10 then [digit_char n] else py_str_nat (n div 10) @ [digit_char (n mod 10)])"
  by pat_completeness auto
termination
  by (relation "measure id") auto

declare py_str_nat.simps [simp del]

section \<open>Exceptions\<close>

text \<open>
  Only classes derived from \<open>Exception\<close> are modelled: they are what the handlers
  \<open>except Exception\<close> of the program catch. An exception carries its class and the
  text that \<open>str(e)\<close> returns.
\<close>

datatype exn_class =
  FileNotFoundError | ValueError | RuntimeError | TypeError | KeyError | AttributeError
  | OSError | LibraryError | PlainException

datatype py_exn = PyExn exn_class string

fun exn_str :: "py_exn \<Rightarrow> string" where
  "exn_str (PyExn k msg) = msg"

fun exn_class_of :: "py_exn \<Rightarrow> exn_class" where
  "exn_class_of (PyExn k msg) = k"

section \<open>Python values\<close>

text \<open>
  The dictionaries, lists and scalars the program passes around. A dictionary is an
  association list in insertion order with string keys; \<open>PObj\<close> is any other object,
  known by the name of its type only. Floats are carried, never computed with.
\<close>

typedecl pyfloat

datatype pyval =
  PNone | PBool bool | PInt int | PFloat pyfloat | PStr string
  | PList "pyval list" | PDict "(string \<times> pyval) list" | PObj string

fun type_name :: "pyval \<Rightarrow> string" where
  "type_name PNone = ''NoneType''"
| "type_name (PBool b) = ''bool''"
| "type_name (PInt i) = ''int''"
| "type_name (PFloat f) = ''float''"
| "type_name (PStr s) = ''str''"
| "type_name (PList xs) = ''list''"
| "type_name (PDict kvs) = ''dict''"
| "type_name (PObj t) = t"

fun dict_set :: "('k \<times> 'v) list \<Rightarrow> 'k \<Rightarrow> 'v \<Rightarrow> ('k \<times> 'v) list" where
  \<comment> \<open>\<open>d[k] = v\<close>: a present key keeps its place, a new key goes last.\<close>
  "dict_set [] k v = [(k, v)]"
| "dict_set ((k', v') # kvs) k v =
     (if k' = k then (k, v) # kvs else (k', v') # dict_set kvs k v)"

definition attribute_error :: "pyval \<Rightarrow> string \<Rightarrow> py_exn" where
  "attribute_error obj attr =
     PyExn AttributeError
       ([CHR 0x27] @ type_name obj @ [CHR 0x27] @ '' object has no attribute ''
        @ [CHR 0x27] @ attr @ [CHR 0x27])"

definition key_error :: "string \<Rightarrow> py_exn" where
  \<comment> \<open>\<open>str(KeyError(k))\<close> is the \<open>repr\<close> of the key.\<close>
  "key_error k = PyExn KeyError ([CHR 0x27] @ k @ [CHR 0x27])"

definition and_then :: "py_exn + 'a \<Rightarrow> ('a \<Rightarrow> py_exn + 'b) \<Rightarrow> py_exn + 'b" where
  \<comment> \<open>sequencing: an exception of the first step is the exception of both\<close>
  "and_then m f = (case m of Inl e \<Rightarrow> Inl e | Inr x \<Rightarrow> f x)"

definition not_iterable :: "string \<Rightarrow> py_exn" where
  "not_iterable ty = PyExn TypeError ([CHR 0x27] @ ty @ [CHR 0x27] @ '' object is not iterable'')"

fun py_get :: "pyval \<Rightarrow> string \<Rightarrow> pyval \<Rightarrow> py_exn + pyval" where
  \<comment> \<open>\<open>obj.get(k, default)\<close>: only a dictionary has the method\<close>
  "py_get (PDict kvs) k d = Inr (case map_of kvs k of Some v \<Rightarrow> v | None \<Rightarrow> d)"
| "py_get obj k d = Inl (attribute_error obj ''get'')"

fun py_getitem :: "pyval \<Rightarrow> string \<Rightarrow> py_exn + pyval" where
  \<comment> \<open>\<open>obj[k]\<close> for a string key\<close>
  "py_getitem (PDict kvs) k = (case map_of kvs k of Some v \<Rightarrow> Inr v | None \<Rightarrow> Inl (key_error k))"
| "py_getitem (PStr s) k =
     Inl (PyExn TypeError (''string indices must be integers, not '' @ [CHR 0x27] @ ''str'' @ [CHR 0x27]))"
| "py_getitem (PList xs) k =
     Inl (PyExn TypeError ''list indices must be integers or slices, not str'')"
| "py_getitem obj k =
     Inl (PyExn TypeError ([CHR 0x27] @ type_name obj @ [CHR 0x27] @ '' object is not subscriptable''))"

fun py_iter :: "pyval \<Rightarrow> py_exn + pyval list" where
  \<comment> \<open>the elements a \<open>for\<close> loop visits: of a dictionary its keys, of a string its
      characters\<close>
  "py_iter (PList xs) = Inr xs"
| "py_iter (PDict kvs) = Inr (map (\<lambda>kv. PStr (fst kv)) kvs)"
| "py_iter (PStr s) = Inr (map (\<lambda>c. PStr [c]) s)"
| "py_iter obj = Inl (not_iterable (type_name obj))"

fun py_len :: "pyval \<Rightarrow> py_exn + nat" where
  "py_len (PList xs) = Inr (length xs)"
| "py_len (PDict kvs) = Inr (length kvs)"
| "py_len (PStr s) = Inr (length s)"
| "py_len obj =
     Inl (PyExn TypeError (''object of type '' @ [CHR 0x27] @ type_name obj @ [CHR 0x27] @ '' has no len()''))"

section \<open>Paths and the file system\<close>

text \<open>
  A path is the string of a \<open>pathlib.Path\<close> on a POSIX system, in the normal form
  that \<open>str(Path(s))\<close> returns (no repeated or trailing slash, no \<open>.\<close> component).
\<close>

definition path_name :: "string \<Rightarrow> string" where
  \<comment> \<open>\<open>Path.name\<close>: the final component.\<close>
  "path_name p = rev (takeWhile (\<lambda>c. c \<noteq> CHR ''/'') (rev p))"

definition path_suffix :: "string \<Rightarrow> string" where
  \<comment> \<open>\<open>Path.suffix\<close>: from the last dot of the name, unless that dot is its first or
      its last character.\<close>
  "path_suffix p =
     (let name = path_name p;
          ext = rev (takeWhile (\<lambda>c. c \<noteq> CHR ''.'') (rev name))
      in if CHR ''.'' \<in> set name \<and> ext \<noteq> [] \<and> length ext + 1 < length name
         then CHR ''.'' # ext else [])"

definition path_stem :: "string \<Rightarrow> string" where
  \<comment> \<open>\<open>Path.stem\<close>: the name without its suffix.\<close>
  "path_stem p = take (length (path_name p) - length (path_suffix p)) (path_name p)"

definition path_parent :: "string \<Rightarrow> string" where
  \<comment> \<open>\<open>Path.parent\<close>\<close>
  "path_parent p =
     (if CHR ''/'' \<notin> set p then ''.''
      else let d = rev (tl (dropWhile (\<lambda>c. c \<noteq> CHR ''/'') (rev p)))
           in if d = [] then ''/'' else d)"

definition path_join :: "string \<Rightarrow> string \<Rightarrow> string" where
  \<comment> \<open>\<open>Path(d) / name\<close> for a relative \<open>name\<close> in normal form.\<close>
  "path_join d name =
     (if d = ''.'' then name else if d = ''/'' then d @ name else d @ ''/'' @ name)"

datatype file_data =
  Opaque
  | Truncated
  | JsonDoc pyval
  | JsonLines "pyval list"
  | CsvTable "string list" "pyval option list list"

text \<open>
  The file system: the directories, the files with what they hold, and the paths at
  which the operating system refuses to create or write (permissions, a full disk).
  \<open>Opaque\<close> is a file this program only reads through a library; \<open>Truncated\<close> is a
  file opened for writing whose contents were not completed.
\<close>

record fs_state =
  fs_dirs :: "string list"
  fs_files :: "(string \<times> file_data) list"
  fs_denied :: "string list"

definition dir_exists :: "fs_state \<Rightarrow> string \<Rightarrow> bool" where
  \<comment> \<open>the root and the working directory always exist\<close>
  "dir_exists fs d = (d = ''.'' \<or> d = ''/'' \<or> d \<in> set (fs_dirs fs))"

definition path_exists :: "fs_state \<Rightarrow> string \<Rightarrow> bool" where
  \<comment> \<open>\<open>Path.exists()\<close>\<close>
  "path_exists fs p = (dir_exists fs p \<or> p \<in> fst ` set (fs_files fs))"

section \<open>Text extraction (pdf\_processor.py)\<close>

text \<open>
  What a PDF library shows of a file: opening it raises, or gives the pages; the text
  call of a page raises, or returns \<open>None\<close> or a string.
\<close>

type_synonym page_view = "py_exn + string option"
type_synonym doc_view = "py_exn + page_view list"

record pdf_libs =
  pdfplumber_open :: "string \<Rightarrow> doc_view"
  fitz_open :: "string \<Rightarrow> doc_view"
  pypdf2_reader :: "string \<Rightarrow> doc_view"

record extract_result =
  res_text :: string
  res_method :: string
  res_pages :: nat

definition page_block :: "nat \<Rightarrow> string \<Rightarrow> string" where
  \<comment> \<open>\<open>f"--- Page {page_num + 1} ---\n{page_text}"\<close>\<close>
  "page_block page_num page_text =
     ''--- Page '' @ py_str_nat (page_num + 1) @ '' ---'' @ [CHR 0x0A] @ page_text"

fun pdfplumber_pages :: "nat \<Rightarrow> page_view list \<Rightarrow> string list \<Rightarrow> py_exn + string list" where
  \<comment> \<open>the loop of \<open>_extract_with_pdfplumber\<close>: \<open>if page_text:\<close> skips \<open>None\<close> and \<open>''\<close>\<close>
  "pdfplumber_pages page_num [] text_content = Inr text_content"
| "pdfplumber_pages page_num (Inl e # pages) text_content = Inl e"
| "pdfplumber_pages page_num (Inr None # pages) text_content =
     pdfplumber_pages (Suc page_num) pages text_content"
| "pdfplumber_pages page_num (Inr (Some page_text) # pages) text_content =
     (if page_text \<noteq> []
      then pdfplumber_pages (Suc page_num) pages (text_content @ [page_block page_num page_text])
      else pdfplumber_pages (Suc page_num) pages text_content)"

fun strip_pages :: "nat \<Rightarrow> page_view list \<Rightarrow> string list \<Rightarrow> py_exn + string list" where
  \<comment> \<open>the loop of \<open>_extract_with_pymupdf\<close> and \<open>_extract_with_pypdf2\<close>:
      \<open>if page_text.strip():\<close> raises on \<open>None\<close>\<close>
  "strip_pages page_num [] text_content = Inr text_content"
| "strip_pages page_num (Inl e # pages) text_content = Inl e"
| "strip_pages page_num (Inr None # pages) text_content =
     Inl (attribute_error PNone ''strip'')"
| "strip_pages page_num (Inr (Some page_text) # pages) text_content =
     (if py_strip page_text \<noteq> []
      then strip_pages (Suc page_num) pages (text_content @ [page_block page_num page_text])
      else strip_pages (Suc page_num) pages text_content)"

definition page_sep :: string where
  "page_sep = [CHR 0x0A, CHR 0x0A]"

definition extract_with_pdfplumber :: "pdf_libs \<Rightarrow> string \<Rightarrow> py_exn + extract_result" where
  "extract_with_pdfplumber libs pdf_path =
     (case pdfplumber_open libs pdf_path of
        Inl e \<Rightarrow> Inl e
      | Inr pages \<Rightarrow>
          (case pdfplumber_pages 0 pages [] of
             Inl e \<Rightarrow> Inl e
           | Inr text_content \<Rightarrow>
               Inr \<lparr>res_text = py_join page_sep text_content,
                    res_method = ''pdfplumber'', res_pages = length pages\<rparr>))"

definition extract_with_pymupdf :: "pdf_libs \<Rightarrow> string \<Rightarrow> py_exn + extract_result" where
  "extract_with_pymupdf libs pdf_path =
     (case fitz_open libs pdf_path of
        Inl e \<Rightarrow> Inl e
      | Inr pages \<Rightarrow>
          (case strip_pages 0 pages [] of
             Inl e \<Rightarrow> Inl e
           | Inr text_content \<Rightarrow>
               Inr \<lparr>res_text = py_join page_sep text_content,
                    res_method = ''pymupdf'', res_pages = length pages\<rparr>))"

definition extract_with_pypdf2 :: "pdf_libs \<Rightarrow> string \<Rightarrow> py_exn + extract_result" where
  "extract_with_pypdf2 libs pdf_path =
     (case pypdf2_reader libs pdf_path of
        Inl e \<Rightarrow> Inl e
      | Inr pages \<Rightarrow>
          (case strip_pages 0 pages [] of
             Inl e \<Rightarrow> Inl e
           | Inr text_content \<Rightarrow>
               Inr \<lparr>res_text = py_join page_sep text_content,
                    res_method = ''pypdf2'', res_pages = length pages\<rparr>))"

type_synonym strategy = "string \<times> (string \<Rightarrow> py_exn + extract_result)"

definition extraction_methods :: "pdf_libs \<Rightarrow> strategy list" where
  \<comment> \<open>\<open>self.extraction_methods\<close>, each with its \<open>__name__\<close>\<close>
  "extraction_methods libs =
     [(''_extract_with_pdfplumber'', extract_with_pdfplumber libs),
      (''_extract_with_pymupdf'', extract_with_pymupdf libs),
      (''_extract_with_pypdf2'', extract_with_pypdf2 libs)]"

definition meaningful :: "py_exn + extract_result \<Rightarrow> bool" where
  \<comment> \<open>the strategy returned, and \<open>result['text'].strip()\<close> is true\<close>
  "meaningful out = (case out of Inl e \<Rightarrow> False | Inr r \<Rightarrow> py_strip (res_text r) \<noteq> [])"

fun try_methods :: "strategy list \<Rightarrow> string \<Rightarrow> string list \<times> extract_result option" where
  \<comment> \<open>the \<open>for method in self.extraction_methods\<close> loop; the first component lists the
      strategies that were called, in order\<close>
  "try_methods [] pdf_path = ([], None)"
| "try_methods ((name, method) # methods) pdf_path =
     (case method pdf_path of
        Inr result \<Rightarrow>
          (if py_strip (res_text result) \<noteq> [] then ([name], Some result)
           else (name # fst (try_methods methods pdf_path), snd (try_methods methods pdf_path)))
      | Inl e \<Rightarrow>
          (name # fst (try_methods methods pdf_path), snd (try_methods methods pdf_path)))"

definition extract_text_with ::
  "strategy list \<Rightarrow> fs_state \<Rightarrow> string \<Rightarrow> string list \<times> (py_exn + extract_result)" where
  \<comment> \<open>\<open>PDFProcessor.extract_text\<close> for the list \<open>self.extraction_methods\<close> holds\<close>
  "extract_text_with methods fs pdf_path =
     (if \<not> path_exists fs pdf_path
      then ([], Inl (PyExn FileNotFoundError (''PDF file not found: '' @ pdf_path)))
      else if py_lower (path_suffix pdf_path) \<noteq> ''.pdf''
      then ([], Inl (PyExn ValueError (''File is not a PDF: '' @ pdf_path)))
      else (case try_methods methods pdf_path of
              (called, Some result) \<Rightarrow> (called, Inr result)
            | (called, None) \<Rightarrow>
                (called, Inl (PyExn RuntimeError (''Failed to extract text from PDF: '' @ pdf_path)))))"

definition extract_text :: "fs_state \<Rightarrow> pdf_libs \<Rightarrow> string \<Rightarrow> py_exn + extract_result" where
  "extract_text fs libs pdf_path = snd (extract_text_with (extraction_methods libs) fs pdf_path)"

section \<open>Structured extraction (extractor.py)\<close>

datatype language_model = OpenAILanguageModel | GeminiLanguageModel

definition get_language_model_type :: "string \<Rightarrow> language_model" where
  "get_language_model_type model_id =
     (if startswith ''gpt-'' model_id \<or> py_in ''gpt'' (py_lower model_id)
      then OpenAILanguageModel
      else if startswith ''gemini-'' model_id \<or> py_in ''gemini'' (py_lower model_id)
      then GeminiLanguageModel
      else GeminiLanguageModel)"

text \<open>
  The extraction service \<open>lx.extract\<close> is external. It is a function of the request
  that raises or returns an object. Of that object the program reads whether it has an
  attribute \<open>extractions\<close>, whether that can be iterated, and the attributes of each item.
\<close>

record lx_extraction =
  ex_class :: pyval
  ex_text :: pyval
  ex_attributes :: pyval

record example_data =
  ed_text :: pyval
  ed_extractions :: "lx_extraction list"

record lx_request =
  rq_text :: string
  rq_prompt :: pyval
  rq_examples :: "example_data list"
  rq_model_id :: string
  rq_model_type :: language_model
  rq_passes :: pyval
  rq_workers :: pyval
  rq_buffer :: pyval
  rq_api_key :: "string option"

datatype lx_item = LxItem string "(string \<times> pyval) list"
  \<comment> \<open>an object: the name of its type, and its attributes\<close>

datatype lx_extractions = NotIterable string | Items "lx_item list"

record lx_result =
  lr_type :: string
  lr_extractions :: "lx_extractions option"

record lx_env =
  getenv :: "string \<Rightarrow> string option"
  lx_extract :: "lx_request \<Rightarrow> py_exn + lx_result"

definition py_or :: "string option \<Rightarrow> string option \<Rightarrow> string option" where
  \<comment> \<open>\<open>a or b\<close> on values that are \<open>None\<close> or a string\<close>
  "py_or a b = (if a \<noteq> None \<and> a \<noteq> Some [] then a else b)"

fun item_attr :: "lx_item \<Rightarrow> string \<Rightarrow> py_exn + pyval" where
  \<comment> \<open>\<open>item.name\<close>\<close>
  "item_attr (LxItem ty attrs) name =
     (case map_of attrs name of
        Some v \<Rightarrow> Inr v
      | None \<Rightarrow> Inl (attribute_error (PObj ty) name))"

fun item_attr_default :: "lx_item \<Rightarrow> string \<Rightarrow> pyval \<Rightarrow> pyval" where
  \<comment> \<open>\<open>getattr(item, name, default)\<close>\<close>
  "item_attr_default (LxItem ty attrs) name d =
     (case map_of attrs name of Some v \<Rightarrow> v | None \<Rightarrow> d)"

definition normalise_item :: "lx_item \<Rightarrow> py_exn + pyval" where
  \<comment> \<open>the dictionary appended for one returned item; its entries are evaluated in order\<close>
  "normalise_item extraction =
     (case item_attr extraction ''extraction_class'' of
        Inl e \<Rightarrow> Inl e
      | Inr c \<Rightarrow>
     (case item_attr extraction ''extraction_text'' of
        Inl e \<Rightarrow> Inl e
      | Inr t \<Rightarrow>
     (case item_attr extraction ''attributes'' of
        Inl e \<Rightarrow> Inl e
      | Inr a \<Rightarrow>
          Inr (PDict [(''class'', c), (''text'', t), (''attributes'', a),
                      (''confidence'', item_attr_default extraction ''confidence'' PNone)]))))"

fun process_items :: "lx_item list \<Rightarrow> pyval list \<Rightarrow> py_exn + pyval list" where
  \<comment> \<open>\<open>for extraction in result.extractions: extractions.append({...})\<close>\<close>
  "process_items [] extractions = Inr extractions"
| "process_items (extraction # rest) extractions =
     (case normalise_item extraction of
        Inl e \<Rightarrow> Inl e
      | Inr d \<Rightarrow> process_items rest (extractions @ [d]))"

definition process_results :: "lx_result \<Rightarrow> py_exn + pyval list" where
  \<comment> \<open>\<open>if hasattr(result, 'extractions'):\<close> and the loop under it\<close>
  "process_results result =
     (case lr_extractions result of
        None \<Rightarrow> Inr []
      | Some (NotIterable ty) \<Rightarrow>
          Inl (not_iterable ty)
      | Some (Items items) \<Rightarrow> process_items items [])"

fun slice_check :: "pyval \<Rightarrow> py_exn option" where
  \<comment> \<open>\<open>prompt_description[:100]\<close> in the log line: what it raises, if anything\<close>
  "slice_check (PStr s) = None"
| "slice_check (PList xs) = None"
| "slice_check (PDict kvs) = Some (PyExn TypeError (''unhashable type: '' @ [CHR 0x27] @ ''slice'' @ [CHR 0x27]))"
| "slice_check v =
     Some (PyExn TypeError ([CHR 0x27] @ type_name v @ [CHR 0x27] @ '' object is not subscriptable''))"

definition failure_result :: "py_exn \<Rightarrow> pyval" where
  \<comment> \<open>the dictionary both handlers return\<close>
  "failure_result e =
     PDict [(''extractions'', PList []),
            (''metadata'', PDict [(''error'', PStr (exn_str e))]),
            (''success'', PBool False),
            (''error'', PStr (exn_str e))]"

definition api_key_of :: "lx_env \<Rightarrow> string option" where
  \<comment> \<open>\<open>os.getenv('GOOGLE_API_KEY') or os.getenv('OPENAI_API_KEY') or
      os.getenv('LANGEXTRACT_API_KEY')\<close>\<close>
  "api_key_of env =
     py_or (getenv env ''GOOGLE_API_KEY'')
       (py_or (getenv env ''OPENAI_API_KEY'') (getenv env ''LANGEXTRACT_API_KEY''))"

definition make_request ::
  "lx_env \<Rightarrow> string \<Rightarrow> string \<Rightarrow> pyval \<Rightarrow> example_data list \<Rightarrow> pyval \<Rightarrow> pyval \<Rightarrow> pyval
   \<Rightarrow> lx_request" where
  \<comment> \<open>the arguments of the call \<open>lx.extract(...)\<close>\<close>
  "make_request env model_id text prompt_description examples extraction_passes
       max_workers max_char_buffer =
     \<lparr>rq_text = text, rq_prompt = prompt_description, rq_examples = examples,
      rq_model_id = model_id, rq_model_type = get_language_model_type model_id,
      rq_passes = extraction_passes, rq_workers = max_workers,
      rq_buffer = max_char_buffer, rq_api_key = api_key_of env\<rparr>"

definition call_langextract ::
  "lx_env \<Rightarrow> string \<Rightarrow> string \<Rightarrow> pyval \<Rightarrow> example_data list \<Rightarrow> pyval \<Rightarrow> pyval \<Rightarrow> pyval
   \<Rightarrow> py_exn + lx_result" where
  \<comment> \<open>the inner \<open>try\<close>: the key is looked up, the model type chosen, the service called;
      whatever is raised is raised again as \<open>Exception("LangExtract API error: ...")\<close>\<close>
  "call_langextract env model_id text prompt_description examples extraction_passes
       max_workers max_char_buffer =
     (case lx_extract env
             (make_request env model_id text prompt_description examples extraction_passes
                max_workers max_char_buffer) of
        Inl lx_error \<Rightarrow>
          Inl (PyExn PlainException (''LangExtract API error: '' @ exn_str lx_error))
      | Inr result \<Rightarrow> Inr result)"

definition extract_from_text_try ::
  "lx_env \<Rightarrow> string \<Rightarrow> string \<Rightarrow> pyval \<Rightarrow> example_data list \<Rightarrow> pyval \<Rightarrow> pyval \<Rightarrow> pyval
   \<Rightarrow> py_exn + pyval" where
  \<comment> \<open>the body of the outer \<open>try\<close> of \<open>extract_from_text\<close>\<close>
  "extract_from_text_try env model_id text prompt_description examples extraction_passes
       max_workers max_char_buffer =
     (case slice_check prompt_description of
        Some e \<Rightarrow> Inl e
      | None \<Rightarrow>
     (case call_langextract env model_id text prompt_description examples extraction_passes
             max_workers max_char_buffer of
        Inl e \<Rightarrow> Inl e
      | Inr result \<Rightarrow>
     (case process_results result of
        Inl e \<Rightarrow> Inl e
      | Inr extractions \<Rightarrow>
          Inr (PDict [(''extractions'', PList extractions),
                      (''metadata'',
                         PDict [(''model_id'', PStr model_id),
                                (''extraction_passes'', extraction_passes),
                                (''total_extractions'', PInt (int (length extractions))),
                                (''text_length'', PInt (int (length text)))]),
                      (''success'', PBool True)]))))"

definition extract_from_text ::
  "lx_env \<Rightarrow> string \<Rightarrow> string \<Rightarrow> pyval \<Rightarrow> example_data list \<Rightarrow> pyval \<Rightarrow> pyval \<Rightarrow> pyval
   \<Rightarrow> py_exn + pyval" where
  \<comment> \<open>\<open>StructuredExtractor.extract_from_text\<close>; \<open>Inl\<close> would be an exception that
      leaves the call\<close>
  "extract_from_text env model_id text prompt_description examples extraction_passes
       max_workers max_char_buffer =
     (case extract_from_text_try env model_id text prompt_description examples
             extraction_passes max_workers max_char_buffer of
        Inl e \<Rightarrow> Inr (failure_result e)
      | Inr results \<Rightarrow> Inr results)"

fun convert_extractions :: "pyval list \<Rightarrow> lx_extraction list \<Rightarrow> py_exn + lx_extraction list" where
  \<comment> \<open>the inner loop of \<open>extract_with_template\<close>\<close>
  "convert_extractions [] extractions = Inr extractions"
| "convert_extractions (ext # rest) extractions =
     and_then (py_getitem ext ''extraction_class'') (\<lambda>c.
     and_then (py_getitem ext ''extraction_text'') (\<lambda>t.
     and_then (py_get ext ''attributes'' (PDict [])) (\<lambda>a.
       convert_extractions rest
         (extractions @ [\<lparr>ex_class = c, ex_text = t, ex_attributes = a\<rparr>]))))"

definition convert_example :: "pyval \<Rightarrow> py_exn + example_data" where
  "convert_example example_data =
     and_then (py_get example_data ''extractions'' (PList [])) (\<lambda>exts.
     and_then (py_iter exts) (\<lambda>ext_list.
     and_then (convert_extractions ext_list []) (\<lambda>extractions.
     and_then (py_getitem example_data ''text'') (\<lambda>t.
       Inr \<lparr>ed_text = t, ed_extractions = extractions\<rparr>))))"

fun convert_examples :: "pyval list \<Rightarrow> example_data list \<Rightarrow> py_exn + example_data list" where
  \<comment> \<open>the outer loop of \<open>extract_with_template\<close>\<close>
  "convert_examples [] examples = Inr examples"
| "convert_examples (example_data # rest) examples =
     and_then (convert_example example_data) (\<lambda>ex. convert_examples rest (examples @ [ex]))"

definition extract_with_template_try ::
  "lx_env \<Rightarrow> string \<Rightarrow> string \<Rightarrow> pyval \<Rightarrow> py_exn + pyval" where
  \<comment> \<open>the body of the \<open>try\<close> of \<open>extract_with_template\<close>\<close>
  "extract_with_template_try env model_id text template_config =
     and_then (py_get template_config ''prompt'' (PStr [])) (\<lambda>prompt.
     and_then (py_get template_config ''examples'' (PList [])) (\<lambda>examples_data.
     and_then (py_iter examples_data) (\<lambda>example_list.
     and_then (convert_examples example_list []) (\<lambda>examples.
     and_then (py_get template_config ''settings'' (PDict [])) (\<lambda>extraction_settings.
     and_then (py_get extraction_settings ''extraction_passes'' (PInt 1)) (\<lambda>passes.
     and_then (py_get extraction_settings ''max_workers'' (PInt 10)) (\<lambda>workers.
     and_then (py_get extraction_settings ''max_char_buffer'' (PInt 1000)) (\<lambda>buffer.
       extract_from_text env model_id text prompt examples passes workers buffer))))))))"

definition extract_with_template ::
  "lx_env \<Rightarrow> string \<Rightarrow> string \<Rightarrow> pyval \<Rightarrow> py_exn + pyval" where
  \<comment> \<open>\<open>StructuredExtractor.extract_with_template\<close>\<close>
  "extract_with_template env model_id text template_config =
     (case extract_with_template_try env model_id text template_config of
        Inl e \<Rightarrow> Inr (failure_result e)
      | Inr results \<Rightarrow> Inr results)"

subsection \<open>Saving results\<close>

fun path_chain_from :: "string \<Rightarrow> string \<Rightarrow> string list" where
  "path_chain_from acc [] = [acc]"
| "path_chain_from acc (c # cs) =
     (if c = CHR ''/'' \<and> acc \<noteq> [] then acc # path_chain_from (acc @ [c]) cs
      else path_chain_from (acc @ [c]) cs)"

definition path_chain :: "string \<Rightarrow> string list" where
  \<comment> \<open>a directory's ancestors from the top down, and the directory itself\<close>
  "path_chain d = path_chain_from [] d"

fun mkdir_chain :: "fs_state \<Rightarrow> string list \<Rightarrow> fs_state \<times> py_exn option" where
  \<comment> \<open>the directories above the failing one stay created\<close>
  "mkdir_chain fs [] = (fs, None)"
| "mkdir_chain fs (d # ds) =
     (if dir_exists fs d then mkdir_chain fs ds
      else if d \<in> fst ` set (fs_files fs)
      then (fs, Some (PyExn OSError (''File exists: '' @ d)))
      else if d \<in> set (fs_denied fs)
      then (fs, Some (PyExn OSError (''Permission denied: '' @ d)))
      else mkdir_chain (fs\<lparr>fs_dirs := fs_dirs fs @ [d]\<rparr>) ds)"

definition mkdir_parents :: "fs_state \<Rightarrow> string \<Rightarrow> fs_state \<times> py_exn option" where
  \<comment> \<open>\<open>Path(d).mkdir(parents=True, exist_ok=True)\<close>\<close>
  "mkdir_parents fs d = mkdir_chain fs (path_chain d)"

definition open_w :: "fs_state \<Rightarrow> string \<Rightarrow> py_exn + fs_state" where
  \<comment> \<open>\<open>open(p, 'w')\<close>: the file exists and is empty once it is open\<close>
  "open_w fs p =
     (if dir_exists fs p then Inl (PyExn OSError (''Is a directory: '' @ p))
      else if \<not> dir_exists fs (path_parent p)
      then Inl (PyExn FileNotFoundError (''No such file or directory: '' @ p))
      else if p \<in> set (fs_denied fs) then Inl (PyExn OSError (''Permission denied: '' @ p))
      else Inr (fs\<lparr>fs_files := dict_set (fs_files fs) p Truncated\<rparr>))"

definition put_data :: "fs_state \<Rightarrow> string \<Rightarrow> file_data \<Rightarrow> fs_state" where
  \<comment> \<open>the open file is written in full and closed\<close>
  "put_data fs p d = fs\<lparr>fs_files := dict_set (fs_files fs) p d\<rparr>"

fun json_ok :: "pyval \<Rightarrow> bool" where
  \<comment> \<open>\<open>json.dump\<close> accepts the value: no object of another type anywhere in it\<close>
  "json_ok (PObj ty) = False"
| "json_ok (PList xs) = list_all json_ok xs"
| "json_ok (PDict kvs) = list_all (\<lambda>kv. json_ok (snd kv)) kvs"
| "json_ok v = True"

definition json_error :: py_exn where
  \<comment> \<open>raised by \<open>json.dump\<close>; the message names the type of the offending object, which
      is left out here\<close>
  "json_error = PyExn TypeError ''Object is not JSON serializable''"

definition attr_column :: "string \<Rightarrow> string" where
  \<comment> \<open>\<open>f'attr_{key}'\<close>\<close>
  "attr_column key = ''attr_'' @ key"

fun add_attributes :: "(string \<times> pyval) list \<Rightarrow> (string \<times> pyval) list \<Rightarrow> (string \<times> pyval) list" where
  \<comment> \<open>\<open>for key, value in attributes.items(): row[f'attr_{key}'] = value\<close>\<close>
  "add_attributes row [] = row"
| "add_attributes row ((key, v) # rest) = add_attributes (dict_set row (attr_column key) v) rest"

fun dict_items :: "pyval \<Rightarrow> py_exn + (string \<times> pyval) list" where
  \<comment> \<open>\<open>obj.items()\<close>\<close>
  "dict_items (PDict kvs) = Inr kvs"
| "dict_items obj = Inl (attribute_error obj ''items'')"

definition flatten_extraction :: "pyval \<Rightarrow> py_exn + (string \<times> pyval) list" where
  \<comment> \<open>the row built for one extraction\<close>
  "flatten_extraction ext =
     and_then (py_getitem ext ''class'') (\<lambda>c.
     and_then (py_getitem ext ''text'') (\<lambda>t.
     and_then (py_get ext ''confidence'' (PStr [])) (\<lambda>conf.
     and_then (py_get ext ''attributes'' (PDict [])) (\<lambda>attrs.
     and_then (dict_items attrs) (\<lambda>items.
       Inr (add_attributes [(''class'', c), (''text'', t), (''confidence'', conf)] items))))))"

fun flatten_all :: "pyval list \<Rightarrow> (string \<times> pyval) list list \<Rightarrow> py_exn + (string \<times> pyval) list list" where
  \<comment> \<open>\<open>for ext in ...: ...; flat_data.append(row)\<close>\<close>
  "flatten_all [] flat_data = Inr flat_data"
| "flatten_all (ext # rest) flat_data =
     and_then (flatten_extraction ext) (\<lambda>row. flatten_all rest (flat_data @ [row]))"

definition results_extractions :: "pyval \<Rightarrow> py_exn + pyval list" where
  \<comment> \<open>the elements of \<open>results.get('extractions', [])\<close>\<close>
  "results_extractions results =
     and_then (py_get results ''extractions'' (PList [])) py_iter"

text \<open>
  \<open>pd.DataFrame(flat_data)\<close> on a list of dictionaries makes one table: its columns
  are the keys of all rows, each once, in the order they first appear, and a row has
  a missing value (\<open>None\<close> here) in every column its dictionary has no key for.
  \<open>to_csv(index=False)\<close> writes the header and then the rows, a missing value as an
  empty field. How a value is rendered as text is not modelled.
\<close>

definition add_column :: "string list \<Rightarrow> string \<Rightarrow> string list" where
  "add_column cols k = (if k \<in> set cols then cols else cols @ [k])"

definition frame_columns :: "(string \<times> pyval) list list \<Rightarrow> string list" where
  "frame_columns flat_data = foldl add_column [] (concat (map (map fst) flat_data))"

definition frame_rows :: "(string \<times> pyval) list list \<Rightarrow> pyval option list list" where
  "frame_rows flat_data = map (\<lambda>row. map (map_of row) (frame_columns flat_data)) flat_data"

definition data_frame :: "(string \<times> pyval) list list \<Rightarrow> file_data" where
  "data_frame flat_data = CsvTable (frame_columns flat_data) (frame_rows flat_data)"

definition write_format ::
  "fs_state \<Rightarrow> pyval \<Rightarrow> string \<Rightarrow> string \<Rightarrow> fs_state \<times> py_exn option" where
  \<comment> \<open>the \<open>if\<close>/\<open>elif\<close> chain of \<open>save_results\<close>, which has no \<open>else\<close>; the result is
      the file system left behind and the exception raised, if any\<close>
  "write_format fs results output_path fmt =
     (if py_lower fmt = ''json'' then
        (case open_w fs output_path of
           Inl e \<Rightarrow> (fs, Some e)
         | Inr fs1 \<Rightarrow>
             if json_ok results then (put_data fs1 output_path (JsonDoc results), None)
             else (fs1, Some json_error))
      else if py_lower fmt = ''jsonl'' then
        (case open_w fs output_path of
           Inl e \<Rightarrow> (fs, Some e)
         | Inr fs1 \<Rightarrow>
             (case results_extractions results of
                Inl e \<Rightarrow> (fs1, Some e)
              | Inr extractions \<Rightarrow>
                  if list_all json_ok extractions
                  then (put_data fs1 output_path (JsonLines extractions), None)
                  else (fs1, Some json_error)))
      else if py_lower fmt = ''csv'' then
        (case and_then (results_extractions results) (\<lambda>extractions. flatten_all extractions []) of
           Inl e \<Rightarrow> (fs, Some e)
         | Inr flat_data \<Rightarrow>
             (case open_w fs output_path of
                Inl e \<Rightarrow> (fs, Some e)
              | Inr fs1 \<Rightarrow> (put_data fs1 output_path (data_frame flat_data), None)))
      else (fs, None))"

definition save_results ::
  "fs_state \<Rightarrow> pyval \<Rightarrow> string \<Rightarrow> string \<Rightarrow> fs_state \<times> (py_exn + bool)" where
  \<comment> \<open>\<open>StructuredExtractor.save_results\<close>: the file system afterwards and what the call
      returns; \<open>Inl\<close> would be an exception that leaves the call\<close>
  "save_results fs results output_path fmt =
     (case mkdir_parents fs (path_parent output_path) of
        (fs1, Some e) \<Rightarrow> (fs1, Inr False)
      | (fs1, None) \<Rightarrow>
          (case write_format fs1 results output_path fmt of
             (fs2, Some e) \<Rightarrow> (fs2, Inr False)
           | (fs2, None) \<Rightarrow> (fs2, Inr True)))"

section \<open>Custom templates (utils.py)\<close>

datatype json_load = ReadError py_exn | DecodeError string | Loaded pyval
  \<comment> \<open>what \<open>open\<close> and \<open>json.load\<close> do on a file: an error other than a decoding
      error, a \<open>JSONDecodeError\<close> with its message, or the parsed value\<close>

fun py_contains :: "pyval \<Rightarrow> string \<Rightarrow> py_exn + bool" where
  \<comment> \<open>\<open>k in obj\<close> for a string \<open>k\<close>: a key of a dictionary, an element of a list, a
      substring of a string\<close>
  "py_contains (PDict kvs) k = Inr (k \<in> fst ` set kvs)"
| "py_contains (PList xs) k = Inr (PStr k \<in> set xs)"
| "py_contains (PStr s) k = Inr (py_in k s)"
| "py_contains obj k =
     Inl (PyExn TypeError (''argument of type '' @ [CHR 0x27] @ type_name obj @ [CHR 0x27]
                           @ '' is not iterable''))"

definition required_fields :: "string list" where
  "required_fields = [''name'', ''prompt'', ''examples'']"

fun check_fields :: "string list \<Rightarrow> pyval \<Rightarrow> py_exn option" where
  \<comment> \<open>\<open>for field in required_fields: if field not in template: raise ValueError(...)\<close>\<close>
  "check_fields [] template = None"
| "check_fields (field # rest) template =
     (case py_contains template field of
        Inl e \<Rightarrow> Some e
      | Inr present \<Rightarrow>
          if \<not> present
          then Some (PyExn ValueError (''Template missing required field: '' @ field))
          else check_fields rest template)"

definition load_custom_template ::
  "fs_state \<Rightarrow> (string \<Rightarrow> json_load) \<Rightarrow> string \<Rightarrow> py_exn + pyval" where
  "load_custom_template fs json_file template_path =
     (if \<not> path_exists fs template_path
      then Inl (PyExn FileNotFoundError (''Template file not found: '' @ template_path))
      else (case json_file template_path of
              ReadError e \<Rightarrow> Inl e
            | DecodeError msg \<Rightarrow> Inl (PyExn ValueError (''Invalid JSON in template file: '' @ msg))
            | Loaded template \<Rightarrow>
                (case check_fields required_fields template of
                   Some e \<Rightarrow> Inl e
                 | None \<Rightarrow>
                     \<comment> \<open>the log line evaluates \<open>template.get('name', 'unnamed')\<close>\<close>
                     and_then (py_get template ''name'' (PStr ''unnamed''))
                       (\<lambda>name. Inr template))))"

section \<open>Batch processing (pdf\_extractor.py)\<close>

definition error_outcome :: "string \<Rightarrow> py_exn \<Rightarrow> pyval" where
  \<comment> \<open>the record of the \<open>except Exception\<close> branch of the loop\<close>
  "error_outcome pdf_file e =
     PDict [(''file'', PStr (path_name pdf_file)), (''status'', PStr ''error''),
            (''error'', PStr (exn_str e))]"

definition batch_item ::
  "pdf_libs \<Rightarrow> lx_env \<Rightarrow> string \<Rightarrow> pyval \<Rightarrow> string \<Rightarrow> string \<Rightarrow> fs_state \<Rightarrow> string
   \<Rightarrow> fs_state \<times> pyval" where
  \<comment> \<open>one turn of the loop of \<open>batch\<close>: the file system afterwards and the record
      appended to \<open>results_summary\<close>\<close>
  "batch_item libs env model_id template_config output_dir fmt fs pdf_file =
     (case extract_text fs libs pdf_file of
        Inl e \<Rightarrow> (fs, error_outcome pdf_file e)
      | Inr text_result \<Rightarrow>
          if res_text text_result = [] then
            (fs, PDict [(''file'', PStr (path_name pdf_file)), (''status'', PStr ''failed''),
                        (''error'', PStr ''Failed to extract text from PDF'')])
          else
            (case extract_with_template env model_id (res_text text_result) template_config of
               Inl e \<Rightarrow> (fs, error_outcome pdf_file e)
             | Inr results \<Rightarrow>
                 let output_file =
                       path_join output_dir (path_stem pdf_file @ ''_extracted.'' @ fmt)
                 in (case save_results fs results output_file fmt of
                       (fs1, Inl e) \<Rightarrow> (fs1, error_outcome pdf_file e)
                     | (fs1, Inr success) \<Rightarrow>
                         (case and_then (py_get results ''extractions'' (PList [])) py_len of
                            Inl e \<Rightarrow> (fs1, error_outcome pdf_file e)
                          | Inr n \<Rightarrow>
                              (fs1,
                               PDict [(''file'', PStr (path_name pdf_file)),
                                      (''status'',
                                         PStr (if success then ''success'' else ''save_failed'')),
                                      (''extractions'', PInt (int n)),
                                      (''output_file'',
                                         if success then PStr output_file else PNone)])))))"

fun batch_loop ::
  "pdf_libs \<Rightarrow> lx_env \<Rightarrow> string \<Rightarrow> pyval \<Rightarrow> string \<Rightarrow> string \<Rightarrow> fs_state \<Rightarrow> string list
   \<Rightarrow> pyval list \<Rightarrow> fs_state \<times> pyval list" where
  \<comment> \<open>\<open>for pdf_file in bar:\<close>\<close>
  "batch_loop libs env model_id template_config output_dir fmt fs [] results_summary =
     (fs, results_summary)"
| "batch_loop libs env model_id template_config output_dir fmt fs (pdf_file # rest)
       results_summary =
     (case batch_item libs env model_id template_config output_dir fmt fs pdf_file of
        (fs1, outcome) \<Rightarrow>
          batch_loop libs env model_id template_config output_dir fmt fs1 rest
            (results_summary @ [outcome]))"

definition batch ::
  "pdf_libs \<Rightarrow> lx_env \<Rightarrow> string \<Rightarrow> pyval \<Rightarrow> string \<Rightarrow> string \<Rightarrow> fs_state \<Rightarrow> string list
   \<Rightarrow> fs_state \<times> (py_exn + pyval list)" where
  \<comment> \<open>\<open>batch\<close> from the loop on: the records, and the summary report written from them\<close>
  "batch libs env model_id template_config output_dir fmt fs pdf_files =
     (case batch_loop libs env model_id template_config output_dir fmt fs pdf_files [] of
        (fs1, results_summary) \<Rightarrow>
          let summary_file = path_join output_dir ''batch_summary.json''
          in (case open_w fs1 summary_file of
                Inl e \<Rightarrow> (fs1, Inl e)
              | Inr fs2 \<Rightarrow>
                  if json_ok (PList results_summary)
                  then (put_data fs2 summary_file (JsonDoc (PList results_summary)),
                        Inr results_summary)
                  else (fs2, Inl json_error)))"

definition outcome_status :: "pyval \<Rightarrow> pyval" where
  \<comment> \<open>\<open>r['status']\<close> of a record\<close>
  "outcome_status r = (case py_getitem r ''status'' of Inr v \<Rightarrow> v | Inl e \<Rightarrow> PNone)"

definition outcome_file :: "pyval \<Rightarrow> pyval" where
  "outcome_file r = (case py_getitem r ''file'' of Inr v \<Rightarrow> v | Inl e \<Rightarrow> PNone)"

section \<open>Reference definitions for the page layout\<close>

text \<open>
  The layout of the extracted text, stated on the pages of the document rather than
  as a loop: the pages that gave a string, each with its page number counting from
  \<open>n\<close>; which of them contribute a block under each strategy; and the block of one page.
\<close>

fun page_strings :: "nat \<Rightarrow> page_view list \<Rightarrow> (nat \<times> string) list" where
  "page_strings n [] = []"
| "page_strings n (Inr (Some t) # pages) = (n, t) # page_strings (Suc n) pages"
| "page_strings n (pg # pages) = page_strings (Suc n) pages"

definition doc_pages :: "pdf_libs \<Rightarrow> string \<Rightarrow> string \<Rightarrow> page_view list" where
  \<comment> \<open>the pages the library of strategy \<open>m\<close> shows of the file\<close>
  "doc_pages libs p m =
     (case (if m = ''pdfplumber'' then pdfplumber_open libs p
            else if m = ''pymupdf'' then fitz_open libs p else pypdf2_reader libs p) of
        Inl e \<Rightarrow> [] | Inr pages \<Rightarrow> pages)"

definition contributes :: "string \<Rightarrow> string \<Rightarrow> bool" where
  "contributes m t = (if m = ''pdfplumber'' then t \<noteq> [] else py_strip t \<noteq> [])"

definition contributing_pages :: "pdf_libs \<Rightarrow> string \<Rightarrow> string \<Rightarrow> (nat \<times> string) list" where
  "contributing_pages libs p m =
     filter (\<lambda>(n, t). contributes m t) (page_strings 1 (doc_pages libs p m))"

definition block_of :: "nat \<times> string \<Rightarrow> string" where
  "block_of nt = ''--- Page '' @ py_str_nat (fst nt) @ '' ---'' @ [CHR 0x0A] @ snd nt"

section \<open>A sample world\<close>

text \<open>
  Five PDF files for the concrete instances below. The first library opens
  \<open>a.pdf\<close> and \<open>e.pdf\<close>; \<open>b.pdf\<close> is read by the second library only and has a blank
  second page, though the third library would give more text; no library finds text
  in \<open>c.pdf\<close>; \<open>d.pdf\<close> is read by the third library only.
\<close>

definition world_fs :: fs_state where
  "world_fs =
     \<lparr>fs_dirs = [''in'', ''out''],
      fs_files = [(''in/a.pdf'', Opaque), (''in/b.pdf'', Opaque), (''in/c.pdf'', Opaque),
                  (''in/d.pdf'', Opaque), (''in/e.pdf'', Opaque)],
      fs_denied = []\<rparr>"

definition world_libs :: pdf_libs where
  "world_libs =
     \<lparr>pdfplumber_open = (\<lambda>p.
        if p = ''in/b.pdf'' \<or> p = ''in/d.pdf'' then Inl (PyExn LibraryError ''cannot open'')
        else if p = ''in/c.pdf'' then Inr [Inr None, Inr (Some [])]
        else Inr [Inr (Some ''Alpha'')]),
      fitz_open = (\<lambda>p.
        if p = ''in/b.pdf'' then Inr [Inr (Some ''B1''), Inr (Some ''  ''), Inr (Some ''B3'')]
        else if p = ''in/c.pdf'' then Inr [Inr (Some '' ''), Inr (Some [])]
        else Inl (PyExn LibraryError ''cannot open'')),
      pypdf2_reader = (\<lambda>p.
        if p = ''in/c.pdf'' then Inl (PyExn LibraryError ''EOF marker not found'')
        else Inr [Inr (Some ''A longer text than the others gave'')])\<rparr>"

definition world_env :: lx_env where
  \<comment> \<open>a service that fails for one model, returns an object without \<open>extractions\<close> for
      another, an item without \<open>extraction_text\<close> for a third, and otherwise two items
      with different attribute keys\<close>
  "world_env =
     \<lparr>getenv = (\<lambda>k. if k = ''GOOGLE_API_KEY'' then Some ''key-1'' else None),
      lx_extract = (\<lambda>rq.
        if rq_model_id rq = ''gpt-4'' then Inl (PyExn LibraryError ''quota exceeded'')
        else if rq_model_id rq = ''gemini-2.5-pro''
        then Inr \<lparr>lr_type = ''list'', lr_extractions = None\<rparr>
        else if rq_model_id rq = ''gemini-1.5''
        then Inr \<lparr>lr_type = ''AnnotatedDocument'',
                   lr_extractions =
                     Some (Items [LxItem ''Extraction'' [(''extraction_class'', PStr ''Invoice'')]])\<rparr>
        else Inr \<lparr>lr_type = ''AnnotatedDocument'',
                   lr_extractions =
                     Some (Items
                       [LxItem ''Extraction''
                          [(''extraction_class'', PStr ''Invoice''),
                           (''extraction_text'', PStr ''INV-1''),
                           (''attributes'', PDict [(''total'', PInt 30)])],
                        LxItem ''Extraction''
                          [(''extraction_class'', PStr ''Vendor''),
                           (''extraction_text'', PStr ''Acme''),
                           (''attributes'', PDict [(''city'', PStr ''Oslo'')])]])\<rparr>)\<rparr>"

definition world_template :: pyval where
  "world_template =
     PDict [(''name'', PStr ''invoice''),
            (''prompt'', PStr ''Extract the invoice fields''),
            (''examples'',
               PList [PDict [(''text'', PStr ''Invoice 7 from Bolt''),
                             (''extractions'',
                                PList [PDict [(''extraction_class'', PStr ''Invoice''),
                                              (''extraction_text'', PStr ''Invoice 7''),
                                              (''attributes'', PDict [(''number'', PStr ''7'')])]])]]),
            (''settings'', PDict [(''extraction_passes'', PInt 1), (''max_workers'', PInt 5)])]"

definition world_results :: pyval where
  \<comment> \<open>what the extraction returns on the sample service: two items with different
      attribute keys\<close>
  "world_results =
     PDict [(''extractions'',
               PList [PDict [(''class'', PStr ''Invoice''), (''text'', PStr ''INV-1''),
                             (''attributes'', PDict [(''total'', PInt 30)]),
                             (''confidence'', PNone)],
                      PDict [(''class'', PStr ''Vendor''), (''text'', PStr ''Acme''),
                             (''attributes'', PDict [(''city'', PStr ''Oslo'')]),
                             (''confidence'', PNone)]]),
            (''metadata'',
               PDict [(''model_id'', PStr ''gemini-2.5-flash''),
                      (''extraction_passes'', PInt 1),
                      (''total_extractions'', PInt 2),
                      (''text_length'', PInt 20)]),
            (''success'', PBool True)]"

definition world_pdfs :: "string list" where
  "world_pdfs = [''in/a.pdf'', ''in/b.pdf'', ''in/c.pdf'', ''in/d.pdf'', ''in/e.pdf'']"

subsection \<open>Reference definitions for the extraction service\<close>

fun has_item_attrs :: "lx_item \<Rightarrow> bool" where
  \<comment> \<open>the item has the three attributes the program reads without a default\<close>
  "has_item_attrs (LxItem ty attrs) =
     (''extraction_class'' \<in> fst ` set attrs \<and> ''extraction_text'' \<in> fst ` set attrs
      \<and> ''attributes'' \<in> fst ` set attrs)"

definition unreadable :: "lx_result \<Rightarrow> bool" where
  \<comment> \<open>the object has an attribute \<open>extractions\<close> that cannot be iterated or that holds
      an item without one of the three attributes\<close>
  "unreadable result =
     (case lr_extractions result of
        None \<Rightarrow> False
      | Some (NotIterable ty) \<Rightarrow> True
      | Some (Items items) \<Rightarrow> \<not> list_all has_item_attrs items)"

subsection \<open>Sample template files\<close>

definition template_files :: "string \<Rightarrow> json_load" where
  \<comment> \<open>a file holding the number 42, an object without \<open>prompt\<close>, and a full template\<close>
  "template_files p =
     (if p = ''t/number.json'' then Loaded (PInt 42)
      else if p = ''t/noprompt.json''
      then Loaded (PDict [(''name'', PStr ''invoice''), (''examples'', PList [])])
      else if p = ''t/full.json'' then Loaded world_template
      else DecodeError ''Expecting value: line 1 column 1 (char 0)'')"

definition template_fs :: fs_state where
  "template_fs =
     \<lparr>fs_dirs = [''t''],
      fs_files = [(''t/number.json'', Opaque), (''t/noprompt.json'', Opaque),
                  (''t/full.json'', Opaque)],
      fs_denied = []\<rparr>"

section \<open>Properties of the text extraction\<close>

lemma try_methods_skip:
  "\<forall>s\<in>set pre. \<not> meaningful (snd s p) \<Longrightarrow>
   try_methods (pre @ rest) p = (map fst pre @ fst (try_methods rest p), snd (try_methods rest p))"
  by (induction pre) (auto simp: meaningful_def split: sum.splits)

lemma try_methods_some:
  "snd (try_methods ms p) = Some r \<Longrightarrow> \<exists>s\<in>set ms. snd s p = Inr r \<and> py_strip (res_text r) \<noteq> []"
  by (induction ms) (auto split: sum.splits if_splits prod.splits)

lemma try_methods_none:
  "\<forall>s\<in>set ms. \<not> meaningful (snd s p) \<Longrightarrow> try_methods ms p = (map fst ms, None)"
  using try_methods_skip[of ms p "[]"] by simp

lemma extract_text_cases:
  assumes "extract_text fs libs p = Inr r"
  shows "(extract_with_pdfplumber libs p = Inr r \<or> extract_with_pymupdf libs p = Inr r
          \<or> extract_with_pypdf2 libs p = Inr r) \<and> py_strip (res_text r) \<noteq> []"
proof -
  have "snd (try_methods (extraction_methods libs) p) = Some r"
    using assms
    by (auto simp: extract_text_def extract_text_with_def split: if_splits prod.splits option.splits)
  from try_methods_some[OF this] show ?thesis
    by (auto simp: extraction_methods_def)
qed

lemma pdfplumber_pages_eq:
  "pdfplumber_pages k pages acc = Inr tc \<Longrightarrow>
   tc = acc @ map block_of (filter (\<lambda>(n, t). t \<noteq> []) (page_strings (Suc k) pages))"
  by (induction k pages acc rule: pdfplumber_pages.induct)
     (auto simp: page_block_def block_of_def split: if_splits)

lemma strip_pages_eq:
  "strip_pages k pages acc = Inr tc \<Longrightarrow>
   tc = acc @ map block_of (filter (\<lambda>(n, t). py_strip t \<noteq> []) (page_strings (Suc k) pages))"
  by (induction k pages acc rule: strip_pages.induct)
     (auto simp: page_block_def block_of_def split: if_splits)

lemma strategy_text:
  assumes "extract_with_pdfplumber libs p = Inr r \<or> extract_with_pymupdf libs p = Inr r
          \<or> extract_with_pypdf2 libs p = Inr r"
  shows "res_text r = py_join page_sep (map block_of (contributing_pages libs p (res_method r)))
     \<and> res_pages r = length (doc_pages libs p (res_method r))"
  using assms
  by (auto simp: extract_with_pdfplumber_def extract_with_pymupdf_def extract_with_pypdf2_def
      contributing_pages_def doc_pages_def contributes_def
      split: sum.splits dest!: pdfplumber_pages_eq strip_pages_eq)

lemma page_strings_fst: "(n, t) \<in> set (page_strings k pages) \<Longrightarrow> k \<le> n"
  by (induction k pages rule: page_strings.induct) auto

lemma page_strings_sorted: "sorted_wrt (<) (map fst (page_strings k pages))"
  by (induction k pages rule: page_strings.induct) (auto dest: page_strings_fst)

lemma page_strings_iff:
  "(n, t) \<in> set (page_strings k pages) \<longleftrightarrow>
     (k \<le> n \<and> n < k + length pages \<and> pages ! (n - k) = Inr (Some t))"
  by (induction k pages rule: page_strings.induct) (auto simp: nth_Cons' Suc_diff_le)

lemma page_strings_length: "length (page_strings k pages) \<le> length pages"
  by (induction k pages rule: page_strings.induct) auto

lemma contributing_sorted: "sorted_wrt (<) (map fst (contributing_pages libs p m))"
  unfolding contributing_pages_def
  using page_strings_sorted[of 1 "doc_pages libs p m"]
  by (simp add: sorted_wrt_map sorted_wrt_filter)

lemma contributing_iff:
  "(n, t) \<in> set (contributing_pages libs p m) \<longleftrightarrow>
     (1 \<le> n \<and> n \<le> length (doc_pages libs p m) \<and> doc_pages libs p m ! (n - 1) = Inr (Some t)
      \<and> contributes m t)"
  by (auto simp: contributing_pages_def page_strings_iff)

lemma contributing_length:
  "length (contributing_pages libs p m) \<le> length (doc_pages libs p m)"
  unfolding contributing_pages_def
  by (rule order_trans[OF length_filter_le page_strings_length])

text \<open>
  Claim C1. When the path exists and ends in \<open>.pdf\<close>, and the list of strategies
  splits into strategies that raise or return only whitespace, then a strategy that
  returns text with a non-empty trimmed form, then any others, \<open>extract_text\<close> returns
  the output of that strategy and has called the strategies before it and itself, in
  order, and none of the later ones, whatever they would return.
\<close>

theorem extract_text_first_success:
  assumes "path_exists fs p" and "py_lower (path_suffix p) = ''.pdf''"
    and "methods = pre @ (name, method) # post"
    and "\<forall>s\<in>set pre. \<not> meaningful (snd s p)"
    and "method p = Inr r" and "py_strip (res_text r) \<noteq> []"
  shows "extract_text_with methods fs p = (map fst pre @ [name], Inr r)"
  using assms by (simp add: extract_text_with_def try_methods_skip)

theorem extract_text_first_success_witness:
  "extract_text_with (extraction_methods world_libs) world_fs ''in/b.pdf'' =
     ([''_extract_with_pdfplumber'', ''_extract_with_pymupdf''],
      Inr \<lparr>res_text = ''--- Page 1 ---\<newline>B1\<newline>\<newline>--- Page 3 ---\<newline>B3'',
           res_method = ''pymupdf'', res_pages = 3\<rparr>)
   \<and> extract_with_pypdf2 world_libs ''in/b.pdf'' =
       Inr \<lparr>res_text = ''--- Page 1 ---\<newline>A longer text than the others gave'',
            res_method = ''pypdf2'', res_pages = 1\<rparr>"
proof -
  have h1: "path_exists world_fs ''in/b.pdf''"
    by (simp add: path_exists_def dir_exists_def world_fs_def)
  have h2: "py_lower (path_suffix ''in/b.pdf'') = ''.pdf''"
    by (simp add: path_suffix_def path_name_def py_lower_def py_lower_char_def)
  have h3: "extraction_methods world_libs =
      [(''_extract_with_pdfplumber'', extract_with_pdfplumber world_libs)]
      @ (''_extract_with_pymupdf'', extract_with_pymupdf world_libs)
      # [(''_extract_with_pypdf2'', extract_with_pypdf2 world_libs)]"
    by (simp add: extraction_methods_def)
  have h4: "\<forall>s\<in>set [(''_extract_with_pdfplumber'', extract_with_pdfplumber world_libs)].
      \<not> meaningful (snd s ''in/b.pdf'')"
    by (simp add: meaningful_def extract_with_pdfplumber_def world_libs_def)
  have h5: "extract_with_pymupdf world_libs ''in/b.pdf'' =
      Inr \<lparr>res_text = ''--- Page 1 ---\<newline>B1\<newline>\<newline>--- Page 3 ---\<newline>B3'',
           res_method = ''pymupdf'', res_pages = 3\<rparr>"
    by (simp add: extract_with_pymupdf_def world_libs_def py_strip_def py_isspace_def
        page_block_def page_sep_def py_str_nat.simps digit_char_def)
  have h6: "py_strip (res_text \<lparr>res_text = ''--- Page 1 ---\<newline>B1\<newline>\<newline>--- Page 3 ---\<newline>B3'',
           res_method = ''pymupdf'', res_pages = 3\<rparr>) \<noteq> []"
    by (simp add: py_strip_def py_isspace_def)
  have h7: "extract_with_pypdf2 world_libs ''in/b.pdf'' =
       Inr \<lparr>res_text = ''--- Page 1 ---\<newline>A longer text than the others gave'',
            res_method = ''pypdf2'', res_pages = 1\<rparr>"
    by (simp add: extract_with_pypdf2_def world_libs_def py_strip_def py_isspace_def
        page_block_def page_sep_def py_str_nat.simps digit_char_def)
  show ?thesis
    using extract_text_first_success[OF h1 h2 h3 h4 h5 h6] h7 by simp
qed

text \<open>
  Claim C6. When the path exists and ends in \<open>.pdf\<close> and each of the three strategies
  raises or returns text whose trimmed form is empty, \<open>extract_text\<close> raises the
  \<open>RuntimeError\<close> whose message names the file; and whatever \<open>extract_text\<close> returns
  has text with a non-empty trimmed form.
\<close>

theorem extract_text_exhausted:
  "(path_exists fs p \<and> py_lower (path_suffix p) = ''.pdf''
     \<and> \<not> meaningful (extract_with_pdfplumber libs p)
     \<and> \<not> meaningful (extract_with_pymupdf libs p)
     \<and> \<not> meaningful (extract_with_pypdf2 libs p)
    \<longrightarrow> extract_text fs libs p =
          Inl (PyExn RuntimeError (''Failed to extract text from PDF: '' @ p)))
   \<and> (extract_text fs libs p = Inr r \<longrightarrow> py_strip (res_text r) \<noteq> [])"
proof (intro conjI impI)
  assume a: "path_exists fs p \<and> py_lower (path_suffix p) = ''.pdf''
     \<and> \<not> meaningful (extract_with_pdfplumber libs p)
     \<and> \<not> meaningful (extract_with_pymupdf libs p)
     \<and> \<not> meaningful (extract_with_pypdf2 libs p)"
  then have "\<forall>s\<in>set (extraction_methods libs). \<not> meaningful (snd s p)"
    by (simp add: extraction_methods_def)
  from try_methods_none[OF this] a
  show "extract_text fs libs p =
          Inl (PyExn RuntimeError (''Failed to extract text from PDF: '' @ p))"
    by (simp add: extract_text_def extract_text_with_def)
next
  assume "extract_text fs libs p = Inr r"
  then show "py_strip (res_text r) \<noteq> []"
    using extract_text_cases by blast
qed

theorem extract_text_exhausted_witness:
  "path_exists world_fs ''in/c.pdf'' \<and> py_lower (path_suffix ''in/c.pdf'') = ''.pdf''
   \<and> extract_with_pdfplumber world_libs ''in/c.pdf'' =
        Inr \<lparr>res_text = [], res_method = ''pdfplumber'', res_pages = 2\<rparr>
   \<and> extract_with_pymupdf world_libs ''in/c.pdf'' =
        Inr \<lparr>res_text = [], res_method = ''pymupdf'', res_pages = 2\<rparr>
   \<and> extract_with_pypdf2 world_libs ''in/c.pdf'' = Inl (PyExn LibraryError ''EOF marker not found'')
   \<and> extract_text world_fs world_libs ''in/c.pdf'' =
        Inl (PyExn RuntimeError ''Failed to extract text from PDF: in/c.pdf'')"
proof -
  have h1: "path_exists world_fs ''in/c.pdf''"
    by (simp add: path_exists_def dir_exists_def world_fs_def)
  have h2: "py_lower (path_suffix ''in/c.pdf'') = ''.pdf''"
    by (simp add: path_suffix_def path_name_def py_lower_def py_lower_char_def)
  have h3: "extract_with_pdfplumber world_libs ''in/c.pdf'' =
        Inr \<lparr>res_text = [], res_method = ''pdfplumber'', res_pages = 2\<rparr>"
    by (simp add: extract_with_pdfplumber_def world_libs_def)
  have h4: "extract_with_pymupdf world_libs ''in/c.pdf'' =
        Inr \<lparr>res_text = [], res_method = ''pymupdf'', res_pages = 2\<rparr>"
    by (simp add: extract_with_pymupdf_def world_libs_def py_strip_def py_isspace_def)
  have h5: "extract_with_pypdf2 world_libs ''in/c.pdf'' = Inl (PyExn LibraryError ''EOF marker not found'')"
    by (simp add: extract_with_pypdf2_def world_libs_def)
  show ?thesis
    using extract_text_exhausted[of world_fs "''in/c.pdf''" world_libs] h1 h2 h3 h4 h5
    by (simp add: meaningful_def py_strip_def)
qed

lemma extract_text_layout_aux:
  assumes "extract_text fs libs p = Inr r"
  shows "res_text r = py_join page_sep (map block_of (contributing_pages libs p (res_method r)))
     \<and> res_pages r = length (doc_pages libs p (res_method r))"
  using extract_text_cases[OF assms] strategy_text by blast

text \<open>
  Claim C8. The text \<open>extract_text\<close> returns is the blocks of the contributing pages
  joined by a blank line, in page order; the block of page \<open>n\<close> (counted from 1) is the
  line \<open>--- Page n ---\<close> followed by the text of that page.
\<close>

theorem extracted_text_layout:
  assumes "extract_text fs libs p = Inr r"
  shows "res_text r =
           py_join [CHR 0x0A, CHR 0x0A]
             (map (\<lambda>(n, t). ''--- Page '' @ py_str_nat n @ '' ---'' @ [CHR 0x0A] @ t)
                (contributing_pages libs p (res_method r)))
       \<and> sorted_wrt (<) (map fst (contributing_pages libs p (res_method r)))
       \<and> (\<forall>(n, t) \<in> set (contributing_pages libs p (res_method r)).
            1 \<le> n \<and> n \<le> length (doc_pages libs p (res_method r))
            \<and> doc_pages libs p (res_method r) ! (n - 1) = Inr (Some t))"
proof -
  have "block_of = (\<lambda>(n, t). ''--- Page '' @ py_str_nat n @ '' ---'' @ [CHR 0x0A] @ t)"
    by (auto simp: block_of_def fun_eq_iff)
  then show ?thesis
    using extract_text_layout_aux[OF assms] contributing_sorted[of libs p "res_method r"]
    by (auto simp: page_sep_def contributing_iff)
qed

lemma world_b_text:
  "extract_text world_fs world_libs ''in/b.pdf'' =
     Inr \<lparr>res_text = ''--- Page 1 ---\<newline>B1\<newline>\<newline>--- Page 3 ---\<newline>B3'',
          res_method = ''pymupdf'', res_pages = 3\<rparr>"
  by (simp add: extract_text_def extract_text_with_def world_libs_def world_fs_def
     extraction_methods_def path_exists_def dir_exists_def path_suffix_def path_name_def py_lower_def
     py_lower_char_def extract_with_pdfplumber_def extract_with_pymupdf_def
     py_strip_def py_isspace_def page_block_def page_sep_def py_str_nat.simps digit_char_def)

lemma world_b_contributing:
  "contributing_pages world_libs ''in/b.pdf'' ''pymupdf'' = [(1, ''B1''), (3, ''B3'')]"
  by (simp add: contributing_pages_def doc_pages_def world_libs_def contributes_def
      py_strip_def py_isspace_def)

theorem extracted_text_layout_witness:
  "extract_text world_fs world_libs ''in/b.pdf'' =
     Inr \<lparr>res_text = ''--- Page 1 ---\<newline>B1\<newline>\<newline>--- Page 3 ---\<newline>B3'',
          res_method = ''pymupdf'', res_pages = 3\<rparr>
   \<and> contributing_pages world_libs ''in/b.pdf'' ''pymupdf'' = [(1, ''B1''), (3, ''B3'')]
   \<and> ''--- Page 1 ---\<newline>B1\<newline>\<newline>--- Page 3 ---\<newline>B3'' =
       py_join [CHR 0x0A, CHR 0x0A]
         (map (\<lambda>(n, t). ''--- Page '' @ py_str_nat n @ '' ---'' @ [CHR 0x0A] @ t)
            [(1, ''B1''), (3, ''B3'')])"
  using extracted_text_layout[OF world_b_text] world_b_text world_b_contributing
  by simp

text \<open>
  Claim C10. In the text \<open>extract_text\<close> returns, a page has a block exactly when its
  text is non-empty (first strategy) or not only whitespace (second and third
  strategy); the block keeps the page's own number, so the numbers increase strictly;
  the page count is the number of all pages. A document with a blank second page
  shows that the numbers can skip and the page count can exceed the number of blocks.
\<close>

theorem empty_pages_omitted:
  "(extract_text fs libs p = Inr r \<longrightarrow>
      res_text r =
        py_join [CHR 0x0A, CHR 0x0A]
          (map (\<lambda>(n, t). ''--- Page '' @ py_str_nat n @ '' ---'' @ [CHR 0x0A] @ t)
             (contributing_pages libs p (res_method r)))
      \<and> res_pages r = length (doc_pages libs p (res_method r))
      \<and> (\<forall>n t. (n, t) \<in> set (contributing_pages libs p (res_method r)) \<longleftrightarrow>
             1 \<le> n \<and> n \<le> length (doc_pages libs p (res_method r))
             \<and> doc_pages libs p (res_method r) ! (n - 1) = Inr (Some t)
             \<and> (if res_method r = ''pdfplumber'' then t \<noteq> [] else py_strip t \<noteq> []))
      \<and> sorted_wrt (<) (map fst (contributing_pages libs p (res_method r)))
      \<and> length (contributing_pages libs p (res_method r)) \<le> res_pages r)
   \<and> (\<exists>fs libs p r. extract_text fs libs p = Inr r
         \<and> map fst (contributing_pages libs p (res_method r)) = [1, 3]
         \<and> res_pages r = 3)"
proof (intro conjI impI)
  assume a: "extract_text fs libs p = Inr r"
  have b: "block_of = (\<lambda>(n, t). ''--- Page '' @ py_str_nat n @ '' ---'' @ [CHR 0x0A] @ t)"
    by (auto simp: block_of_def fun_eq_iff)
  show "res_text r =
        py_join [CHR 0x0A, CHR 0x0A]
          (map (\<lambda>(n, t). ''--- Page '' @ py_str_nat n @ '' ---'' @ [CHR 0x0A] @ t)
             (contributing_pages libs p (res_method r)))"
    using extract_text_layout_aux[OF a] b by (simp add: page_sep_def)
  show "res_pages r = length (doc_pages libs p (res_method r))"
    using extract_text_layout_aux[OF a] by simp
  show "\<forall>n t. (n, t) \<in> set (contributing_pages libs p (res_method r)) \<longleftrightarrow>
             1 \<le> n \<and> n \<le> length (doc_pages libs p (res_method r))
             \<and> doc_pages libs p (res_method r) ! (n - 1) = Inr (Some t)
             \<and> (if res_method r = ''pdfplumber'' then t \<noteq> [] else py_strip t \<noteq> [])"
    by (simp add: contributing_iff contributes_def)
  show "sorted_wrt (<) (map fst (contributing_pages libs p (res_method r)))"
    by (rule contributing_sorted)
  show "length (contributing_pages libs p (res_method r)) \<le> res_pages r"
    using extract_text_layout_aux[OF a] contributing_length[of libs p "res_method r"] by simp
next
  show "\<exists>fs libs p r. extract_text fs libs p = Inr r
         \<and> map fst (contributing_pages libs p (res_method r)) = [1, 3]
         \<and> res_pages r = 3"
    using world_b_text world_b_contributing
    by (intro exI[of _ world_fs] exI[of _ world_libs] exI[of _ "''in/b.pdf''"]
        exI[of _ "\<lparr>res_text = ''--- Page 1 ---\<newline>B1\<newline>\<newline>--- Page 3 ---\<newline>B3'',
          res_method = ''pymupdf'', res_pages = 3\<rparr>"]) simp
qed

theorem empty_pages_omitted_witness:
  "extract_text world_fs world_libs ''in/b.pdf'' =
     Inr \<lparr>res_text = ''--- Page 1 ---\<newline>B1\<newline>\<newline>--- Page 3 ---\<newline>B3'',
          res_method = ''pymupdf'', res_pages = 3\<rparr>
   \<and> doc_pages world_libs ''in/b.pdf'' ''pymupdf'' =
       [Inr (Some ''B1''), Inr (Some ''  ''), Inr (Some ''B3'')]
   \<and> map fst (contributing_pages world_libs ''in/b.pdf'' ''pymupdf'') = [1, 3]
   \<and> length (contributing_pages world_libs ''in/b.pdf'' ''pymupdf'') < 3"
proof -
  have d: "doc_pages world_libs ''in/b.pdf'' ''pymupdf'' =
       [Inr (Some ''B1''), Inr (Some ''  ''), Inr (Some ''B3'')]"
    by (simp add: doc_pages_def world_libs_def)
  from empty_pages_omitted[of world_fs world_libs "''in/b.pdf''"
      "\<lparr>res_text = ''--- Page 1 ---\<newline>B1\<newline>\<newline>--- Page 3 ---\<newline>B3'',
          res_method = ''pymupdf'', res_pages = 3\<rparr>"]
  show ?thesis
    using world_b_text world_b_contributing d by simp
qed

section \<open>Properties of the model dispatch\<close>

lemma startswith_gpt_lower:
  "startswith ''gpt-'' s \<Longrightarrow> py_in ''gpt'' (py_lower s)"
proof -
  assume a: "startswith ''gpt-'' s"
  then obtain r where "s = ''gpt-'' @ r"
    by (cases s; cases "tl s"; cases "tl (tl s)"; cases "tl (tl (tl s))") auto
  then show ?thesis
    by (simp add: py_lower_def py_lower_char_def)
qed

text \<open>
  Claim C7. The model type is a function of the lower-cased identifier alone: the
  OpenAI type when it contains \<open>gpt\<close>, whether or not it also contains \<open>gemini\<close>;
  otherwise the Gemini type, for an identifier that contains \<open>gemini\<close> and for any
  other. Two identifiers that differ only in case get the same type.
\<close>

theorem model_dispatch:
  "get_language_model_type model_id =
     (if py_in ''gpt'' (py_lower model_id) then OpenAILanguageModel
      else if py_in ''gemini'' (py_lower model_id) then GeminiLanguageModel
      else GeminiLanguageModel)
   \<and> (py_lower model_id = py_lower other_id \<longrightarrow>
        get_language_model_type model_id = get_language_model_type other_id)"
proof -
  have e: "\<And>s. get_language_model_type s =
     (if py_in ''gpt'' (py_lower s) then OpenAILanguageModel else GeminiLanguageModel)"
    using startswith_gpt_lower by (auto simp: get_language_model_type_def)
  show ?thesis by (simp add: e)
qed

theorem model_dispatch_witness:
  "py_lower ''GPT-4 via Gemini'' = py_lower ''gpt-4 VIA GEMINI''
   \<and> get_language_model_type ''GPT-4 via Gemini'' = OpenAILanguageModel
   \<and> get_language_model_type ''gpt-4 VIA GEMINI'' = OpenAILanguageModel
   \<and> get_language_model_type ''Gemini-2.5-Flash'' = GeminiLanguageModel
   \<and> get_language_model_type ''claude-3'' = GeminiLanguageModel"
proof -
  have l1: "py_lower ''GPT-4 via Gemini'' = ''gpt-4 via gemini''" by code_simp
  have l2: "py_lower ''gpt-4 VIA GEMINI'' = ''gpt-4 via gemini''" by code_simp
  have l3: "py_lower ''Gemini-2.5-Flash'' = ''gemini-2.5-flash''" by code_simp
  have l4: "py_lower ''claude-3'' = ''claude-3''" by code_simp
  have a: "get_language_model_type ''GPT-4 via Gemini'' = OpenAILanguageModel"
    using model_dispatch[of "''GPT-4 via Gemini''" "''gpt-4 VIA GEMINI''"] by (simp add: l1)
  have b: "get_language_model_type ''GPT-4 via Gemini'' = get_language_model_type ''gpt-4 VIA GEMINI''"
    using model_dispatch[of "''GPT-4 via Gemini''" "''gpt-4 VIA GEMINI''"] l1 l2 by metis
  have c: "get_language_model_type ''Gemini-2.5-Flash'' = GeminiLanguageModel"
    using model_dispatch[of "''Gemini-2.5-Flash''" "''Gemini-2.5-Flash''"] by (simp add: l3)
  have d: "get_language_model_type ''claude-3'' = GeminiLanguageModel"
    using model_dispatch[of "''claude-3''" "''claude-3''"] by (simp add: l4)
  show ?thesis using a b c d l1 l2 by simp
qed

section \<open>Properties of the structured extraction\<close>

lemma item_attr_in:
  assumes "k \<in> fst ` set attrs"
  shows "\<exists>v. item_attr (LxItem ty attrs) k = Inr v"
proof -
  from assms have "map_of attrs k \<noteq> None" by (simp add: map_of_eq_None_iff)
  then obtain v where "map_of attrs k = Some v" by blast
  then show ?thesis by simp
qed

lemma item_attr_notin:
  assumes "k \<notin> fst ` set attrs"
  shows "\<exists>e. item_attr (LxItem ty attrs) k = Inl e"
proof -
  from assms have "map_of attrs k = None" by (simp add: map_of_eq_None_iff)
  then show ?thesis by simp
qed

lemma normalise_item_ok:
  assumes "has_item_attrs it"
  shows "\<exists>d. normalise_item it = Inr d"
proof (cases it)
  case (LxItem ty attrs)
  with assms obtain c t a where
    "item_attr it ''extraction_class'' = Inr c"
    "item_attr it ''extraction_text'' = Inr t"
    "item_attr it ''attributes'' = Inr a"
    using item_attr_in[of _ attrs ty] by (metis has_item_attrs.simps)
  then show ?thesis by (simp add: normalise_item_def)
qed

lemma normalise_item_bad:
  assumes "\<not> has_item_attrs it"
  shows "\<exists>e. normalise_item it = Inl e"
proof (cases it)
  case (LxItem ty attrs)
  show ?thesis
  proof (cases "item_attr it ''extraction_class''")
    case (Inl e) then show ?thesis by (simp add: normalise_item_def)
  next
    case c: (Inr c)
    show ?thesis
    proof (cases "item_attr it ''extraction_text''")
      case (Inl e) then show ?thesis using c by (simp add: normalise_item_def)
    next
      case t: (Inr t)
      show ?thesis
      proof (cases "item_attr it ''attributes''")
        case (Inl e) then show ?thesis using c t by (simp add: normalise_item_def)
      next
        case a: (Inr a)
        have "has_item_attrs it"
          using c t a LxItem item_attr_notin[of _ attrs ty]
          by (metis has_item_attrs.simps sum.distinct(1))
        with assms show ?thesis by simp
      qed
    qed
  qed
qed

lemma process_items_bad:
  "\<not> list_all has_item_attrs items \<Longrightarrow> \<exists>e. process_items items acc = Inl e"
proof (induction items arbitrary: acc)
  case Nil
  then show ?case by simp
next
  case (Cons it items)
  show ?case
  proof (cases "has_item_attrs it")
    case True
    then obtain d where "normalise_item it = Inr d" using normalise_item_ok by blast
    then show ?thesis using Cons True by simp
  next
    case False
    then obtain e where "normalise_item it = Inl e" using normalise_item_bad by blast
    then show ?thesis by simp
  qed
qed

lemma unreadable_fails: "unreadable res \<Longrightarrow> \<exists>e. process_results res = Inl e"
  by (auto simp: unreadable_def process_results_def process_items_bad
      split: option.splits lx_extractions.splits)

lemma failure_shape:
  "failure_result e =
     PDict [(''extractions'', PList []),
            (''metadata'', PDict [(''error'', PStr (exn_str e))]),
            (''success'', PBool False),
            (''error'', PStr (exn_str e))]"
  by (simp add: failure_result_def)

text \<open>
  Claim C2, as amended. Neither \<open>extract_from_text\<close> nor \<open>extract_with_template\<close>
  raises. An exception in the body of either is turned into the record with no
  extractions, \<open>success\<close> false, and the message of that exception as \<open>error\<close> and
  as the only entry of \<open>metadata\<close>; an exception of the service arrives there as
  \<open>LangExtract API error: \<close> followed by its message. The record has \<open>success\<close>
  false when the service raises and when the object it returns has an attribute
  \<open>extractions\<close> that cannot be iterated or holds an item without
  \<open>extraction_class\<close>, \<open>extraction_text\<close> or \<open>attributes\<close>. An object without the
  attribute \<open>extractions\<close> gives \<open>success\<close> true and no extractions.
\<close>

theorem extraction_failure_record:
  "(\<exists>r. extract_from_text env m txt prompt exs ps ws buf = Inr r)
   \<and> (\<exists>r. extract_with_template env m txt template = Inr r)
   \<and> (extract_from_text_try env m txt prompt exs ps ws buf = Inl e1 \<longrightarrow>
        extract_from_text env m txt prompt exs ps ws buf =
          Inr (PDict [(''extractions'', PList []),
                      (''metadata'', PDict [(''error'', PStr (exn_str e1))]),
                      (''success'', PBool False),
                      (''error'', PStr (exn_str e1))]))
   \<and> (extract_with_template_try env m txt template = Inl e2 \<longrightarrow>
        extract_with_template env m txt template =
          Inr (PDict [(''extractions'', PList []),
                      (''metadata'', PDict [(''error'', PStr (exn_str e2))]),
                      (''success'', PBool False),
                      (''error'', PStr (exn_str e2))]))
   \<and> (slice_check prompt = None
        \<and> lx_extract env (make_request env m txt prompt exs ps ws buf) = Inl e3 \<longrightarrow>
        extract_from_text env m txt prompt exs ps ws buf =
          Inr (PDict [(''extractions'', PList []),
                      (''metadata'',
                         PDict [(''error'', PStr (''LangExtract API error: '' @ exn_str e3))]),
                      (''success'', PBool False),
                      (''error'', PStr (''LangExtract API error: '' @ exn_str e3))]))
   \<and> (slice_check prompt = None
        \<and> lx_extract env (make_request env m txt prompt exs ps ws buf) = Inr res
        \<and> unreadable res \<longrightarrow>
        (\<exists>e. process_results res = Inl e
           \<and> extract_from_text env m txt prompt exs ps ws buf =
               Inr (PDict [(''extractions'', PList []),
                           (''metadata'', PDict [(''error'', PStr (exn_str e))]),
                           (''success'', PBool False),
                           (''error'', PStr (exn_str e))])))
   \<and> (slice_check prompt = None
        \<and> lx_extract env (make_request env m txt prompt exs ps ws buf) = Inr res
        \<and> lr_extractions res = None \<longrightarrow>
        extract_from_text env m txt prompt exs ps ws buf =
          Inr (PDict [(''extractions'', PList []),
                      (''metadata'',
                         PDict [(''model_id'', PStr m), (''extraction_passes'', ps),
                                (''total_extractions'', PInt 0),
                                (''text_length'', PInt (int (length txt)))]),
                      (''success'', PBool True)]))"
proof (intro conjI impI)
  show "\<exists>r. extract_from_text env m txt prompt exs ps ws buf = Inr r"
    by (simp add: extract_from_text_def split: sum.splits)
  show "\<exists>r. extract_with_template env m txt template = Inr r"
    by (simp add: extract_with_template_def split: sum.splits)
next
  assume "extract_from_text_try env m txt prompt exs ps ws buf = Inl e1"
  then show "extract_from_text env m txt prompt exs ps ws buf =
          Inr (PDict [(''extractions'', PList []),
                      (''metadata'', PDict [(''error'', PStr (exn_str e1))]),
                      (''success'', PBool False),
                      (''error'', PStr (exn_str e1))])"
    by (simp add: extract_from_text_def failure_shape)
next
  assume "extract_with_template_try env m txt template = Inl e2"
  then show "extract_with_template env m txt template =
          Inr (PDict [(''extractions'', PList []),
                      (''metadata'', PDict [(''error'', PStr (exn_str e2))]),
                      (''success'', PBool False),
                      (''error'', PStr (exn_str e2))])"
    by (simp add: extract_with_template_def failure_shape)
next
  assume "slice_check prompt = None
        \<and> lx_extract env (make_request env m txt prompt exs ps ws buf) = Inl e3"
  then show "extract_from_text env m txt prompt exs ps ws buf =
          Inr (PDict [(''extractions'', PList []),
                      (''metadata'',
                         PDict [(''error'', PStr (''LangExtract API error: '' @ exn_str e3))]),
                      (''success'', PBool False),
                      (''error'', PStr (''LangExtract API error: '' @ exn_str e3))])"
    by (simp add: extract_from_text_def extract_from_text_try_def call_langextract_def
        failure_shape)
next
  assume a: "slice_check prompt = None
        \<and> lx_extract env (make_request env m txt prompt exs ps ws buf) = Inr res
        \<and> unreadable res"
  then obtain e where e: "process_results res = Inl e"
    using unreadable_fails by blast
  with a show "\<exists>e. process_results res = Inl e
           \<and> extract_from_text env m txt prompt exs ps ws buf =
               Inr (PDict [(''extractions'', PList []),
                           (''metadata'', PDict [(''error'', PStr (exn_str e))]),
                           (''success'', PBool False),
                           (''error'', PStr (exn_str e))])"
    by (simp add: extract_from_text_def extract_from_text_try_def call_langextract_def
        failure_shape)
next
  assume "slice_check prompt = None
        \<and> lx_extract env (make_request env m txt prompt exs ps ws buf) = Inr res
        \<and> lr_extractions res = None"
  then show "extract_from_text env m txt prompt exs ps ws buf =
          Inr (PDict [(''extractions'', PList []),
                      (''metadata'',
                         PDict [(''model_id'', PStr m), (''extraction_passes'', ps),
                                (''total_extractions'', PInt 0),
                                (''text_length'', PInt (int (length txt)))]),
                      (''success'', PBool True)])"
    by (simp add: extract_from_text_def extract_from_text_try_def call_langextract_def
        process_results_def)
qed

text \<open>
  Claim C2 as stated fails: the service returns an object that has no attribute
  \<open>extractions\<close>, and the record has \<open>success\<close> true.
\<close>

theorem success_without_extractions:
  "lx_extract world_env
     (make_request world_env ''gemini-2.5-pro'' ''Invoice INV-1 by Acme'' (PStr ''Extract'')
        [] (PInt 1) (PInt 10) (PInt 1000)) =
     Inr \<lparr>lr_type = ''list'', lr_extractions = None\<rparr>
   \<and> extract_from_text world_env ''gemini-2.5-pro'' ''Invoice INV-1 by Acme'' (PStr ''Extract'')
        [] (PInt 1) (PInt 10) (PInt 1000) =
       Inr (PDict [(''extractions'', PList []),
                   (''metadata'',
                      PDict [(''model_id'', PStr ''gemini-2.5-pro''),
                             (''extraction_passes'', PInt 1),
                             (''total_extractions'', PInt 0),
                             (''text_length'', PInt 21)]),
                   (''success'', PBool True)])"
  by (simp add: extract_from_text_def extract_from_text_try_def call_langextract_def
      process_results_def world_env_def make_request_def)

theorem extraction_failure_record_witness:
  "extract_from_text world_env ''gpt-4'' ''Invoice INV-1 by Acme'' (PStr ''Extract'')
        [] (PInt 1) (PInt 10) (PInt 1000) =
     Inr (PDict [(''extractions'', PList []),
                 (''metadata'',
                    PDict [(''error'', PStr ''LangExtract API error: quota exceeded'')]),
                 (''success'', PBool False),
                 (''error'', PStr ''LangExtract API error: quota exceeded'')])
   \<and> extract_from_text world_env ''gemini-1.5'' ''Invoice INV-1 by Acme'' (PStr ''Extract'')
        [] (PInt 1) (PInt 10) (PInt 1000) =
     Inr (failure_result (attribute_error (PObj ''Extraction'') ''extraction_text''))
   \<and> extract_with_template world_env ''gemini-2.5-flash'' ''Invoice INV-1 by Acme''
        (PDict [(''examples'', PList [PDict []])]) =
     Inr (failure_result (key_error ''text''))"
proof -
  let ?txt = "''Invoice INV-1 by Acme''"
  have s: "slice_check (PStr ''Extract'') = None" by simp
  have r1: "lx_extract world_env
      (make_request world_env ''gpt-4'' ?txt (PStr ''Extract'') [] (PInt 1) (PInt 10) (PInt 1000))
      = Inl (PyExn LibraryError ''quota exceeded'')"
    by (simp add: world_env_def make_request_def)
  have a: "extract_from_text world_env ''gpt-4'' ?txt (PStr ''Extract'')
        [] (PInt 1) (PInt 10) (PInt 1000) =
     Inr (PDict [(''extractions'', PList []),
                 (''metadata'',
                    PDict [(''error'', PStr ''LangExtract API error: quota exceeded'')]),
                 (''success'', PBool False),
                 (''error'', PStr ''LangExtract API error: quota exceeded'')])"
    using extraction_failure_record[of world_env "''gpt-4''" ?txt "PStr ''Extract''" "[]"
        "PInt 1" "PInt 10" "PInt 1000" PNone _ _ "PyExn LibraryError ''quota exceeded''"] s r1
    by simp
  let ?res = "\<lparr>lr_type = ''AnnotatedDocument'',
      lr_extractions =
        Some (Items [LxItem ''Extraction'' [(''extraction_class'', PStr ''Invoice'')]])\<rparr>"
  have r2: "lx_extract world_env
      (make_request world_env ''gemini-1.5'' ?txt (PStr ''Extract'') [] (PInt 1) (PInt 10) (PInt 1000))
      = Inr ?res"
    by (simp add: world_env_def make_request_def)
  have u: "unreadable ?res" by (simp add: unreadable_def)
  have p: "process_results ?res =
      Inl (attribute_error (PObj ''Extraction'') ''extraction_text'')"
    by (simp add: process_results_def normalise_item_def)
  have b: "extract_from_text world_env ''gemini-1.5'' ?txt (PStr ''Extract'')
        [] (PInt 1) (PInt 10) (PInt 1000) =
     Inr (failure_result (attribute_error (PObj ''Extraction'') ''extraction_text''))"
    using extraction_failure_record[of world_env "''gemini-1.5''" ?txt "PStr ''Extract''" "[]"
        "PInt 1" "PInt 10" "PInt 1000" PNone _ _ _ ?res] s r2 u p
    by (auto simp: failure_shape)
  have t: "extract_with_template_try world_env ''gemini-2.5-flash'' ?txt
        (PDict [(''examples'', PList [PDict []])]) = Inl (key_error ''text'')"
    by (simp add: extract_with_template_try_def and_then_def convert_example_def)
  have c: "extract_with_template world_env ''gemini-2.5-flash'' ?txt
        (PDict [(''examples'', PList [PDict []])]) =
     Inr (failure_result (key_error ''text''))"
    using extraction_failure_record[of world_env "''gemini-2.5-flash''" ?txt PNone "[]"
        PNone PNone PNone "PDict [(''examples'', PList [PDict []])]" _ "key_error ''text''"] t
    by (simp add: failure_shape)
  show ?thesis using a b c by simp
qed

section \<open>Properties of the template loading\<close>

text \<open>
  Claim C9, as amended. A template file that parses to a JSON object without one of
  \<open>name\<close>, \<open>prompt\<close>, \<open>examples\<close> makes the loading raise the \<open>ValueError\<close> that names
  the first missing one in that order; an object with all three is returned as it was
  parsed. A file that parses to \<open>null\<close>, a boolean or a number raises a \<open>TypeError\<close>
  that names no field.
\<close>

theorem custom_template_fields:
  "(path_exists fs p \<and> json_file p = Loaded (PDict kvs) \<longrightarrow>
      load_custom_template fs json_file p =
        (if ''name'' \<notin> fst ` set kvs
         then Inl (PyExn ValueError ''Template missing required field: name'')
         else if ''prompt'' \<notin> fst ` set kvs
         then Inl (PyExn ValueError ''Template missing required field: prompt'')
         else if ''examples'' \<notin> fst ` set kvs
         then Inl (PyExn ValueError ''Template missing required field: examples'')
         else Inr (PDict kvs)))
   \<and> (path_exists fs p \<and> json_file p = Loaded v
        \<and> (v = PNone \<or> v = PBool b \<or> v = PInt i \<or> v = PFloat f) \<longrightarrow>
      load_custom_template fs json_file p =
        Inl (PyExn TypeError (''argument of type '' @ [CHR 0x27] @ type_name v @ [CHR 0x27]
                              @ '' is not iterable'')))"
  by (auto simp: load_custom_template_def required_fields_def and_then_def)

text \<open>
  Claim C9 as stated fails: a file that holds the number 42 is valid JSON and has none
  of the three fields, and the loading raises a \<open>TypeError\<close> that names no field.
\<close>

theorem number_template_type_error:
  "path_exists template_fs ''t/number.json''
   \<and> template_files ''t/number.json'' = Loaded (PInt 42)
   \<and> load_custom_template template_fs template_files ''t/number.json'' =
       Inl (PyExn TypeError (''argument of type '' @ [CHR 0x27] @ ''int'' @ [CHR 0x27]
                             @ '' is not iterable''))
   \<and> (\<forall>field. load_custom_template template_fs template_files ''t/number.json'' \<noteq>
         Inl (PyExn ValueError (''Template missing required field: '' @ field)))"
  by (simp add: load_custom_template_def required_fields_def template_fs_def
      template_files_def path_exists_def dir_exists_def)

theorem custom_template_fields_witness:
  "load_custom_template template_fs template_files ''t/noprompt.json'' =
     Inl (PyExn ValueError ''Template missing required field: prompt'')
   \<and> load_custom_template template_fs template_files ''t/full.json'' = Inr world_template
   \<and> load_custom_template template_fs template_files ''t/number.json'' =
       Inl (PyExn TypeError (''argument of type '' @ [CHR 0x27] @ ''int'' @ [CHR 0x27]
                             @ '' is not iterable''))"
proof -
  have e: "path_exists template_fs ''t/noprompt.json''" "path_exists template_fs ''t/full.json''"
    "path_exists template_fs ''t/number.json''"
    by (simp_all add: path_exists_def dir_exists_def template_fs_def)
  have l1: "template_files ''t/noprompt.json'' =
      Loaded (PDict [(''name'', PStr ''invoice''), (''examples'', PList [])])"
    by (simp add: template_files_def)
  have l2: "template_files ''t/full.json'' = Loaded world_template"
    by (simp add: template_files_def)
  obtain kvs where k: "world_template = PDict kvs"
    "''name'' \<in> fst ` set kvs" "''prompt'' \<in> fst ` set kvs" "''examples'' \<in> fst ` set kvs"
    by (simp add: world_template_def)
  have l3: "template_files ''t/number.json'' = Loaded (PInt 42)"
    by (simp add: template_files_def)
  have a: "load_custom_template template_fs template_files ''t/noprompt.json'' =
     Inl (PyExn ValueError ''Template missing required field: prompt'')"
    using custom_template_fields[of template_fs "''t/noprompt.json''" template_files
        "[(''name'', PStr ''invoice''), (''examples'', PList [])]"] e l1
    by simp
  have b: "load_custom_template template_fs template_files ''t/full.json'' = Inr world_template"
    using custom_template_fields[of template_fs "''t/full.json''" template_files kvs] e l2 k
    by simp
  have c: "load_custom_template template_fs template_files ''t/number.json'' =
       Inl (PyExn TypeError (''argument of type '' @ [CHR 0x27] @ ''int'' @ [CHR 0x27]
                             @ '' is not iterable''))"
    using custom_template_fields[of template_fs "''t/number.json''" template_files _ "PInt 42" _ 42]
      e l3
    by simp
  show ?thesis using a b c by simp
qed

section \<open>Properties of saving as csv\<close>

lemma dict_set_keys: "fst ` set (dict_set d k v) = insert k (fst ` set d)"
  by (induction d k v rule: dict_set.induct) auto

lemma add_attributes_keys:
  "fst ` set (add_attributes row items) = fst ` set row \<union> attr_column ` fst ` set items"
  by (induction row items rule: add_attributes.induct) (auto simp: dict_set_keys)

lemma flatten_extraction_keys:
  assumes "flatten_extraction ext = Inr row"
  shows "\<exists>items. py_get ext ''attributes'' (PDict []) = Inr (PDict items)
     \<and> fst ` set row = {''class'', ''text'', ''confidence''} \<union> attr_column ` fst ` set items"
proof -
  from assms obtain c t conf attrs items where
    a: "py_get ext ''attributes'' (PDict []) = Inr attrs" and i: "dict_items attrs = Inr items"
    and r: "row = add_attributes [(''class'', c), (''text'', t), (''confidence'', conf)] items"
    by (auto simp: flatten_extraction_def and_then_def split: sum.splits)
  from i have "attrs = PDict items" by (cases attrs) auto
  moreover have "fst ` set row = {''class'', ''text'', ''confidence''} \<union> attr_column ` fst ` set items"
    unfolding r add_attributes_keys by simp
  ultimately show ?thesis using a by blast
qed

lemma flatten_all_prefix:
  "flatten_all exts acc = Inr fd \<Longrightarrow> take (length acc) fd = acc"
proof (induction exts arbitrary: acc)
  case Nil
  then show ?case by simp
next
  case (Cons ext exts)
  then obtain row where rest: "flatten_all exts (acc @ [row]) = Inr fd"
    by (auto simp: and_then_def split: sum.splits)
  from Cons.IH[OF rest] have "take (Suc (length acc)) fd = acc @ [row]" by simp
  then have "take (length acc) (take (Suc (length acc)) fd) = take (length acc) (acc @ [row])"
    by simp
  then show ?case by simp
qed

lemma flatten_all_rows:
  "flatten_all exts acc = Inr fd \<Longrightarrow>
   length fd = length acc + length exts
   \<and> (\<forall>i<length exts. flatten_extraction (exts ! i) = Inr (fd ! (length acc + i)))"
proof (induction exts arbitrary: acc)
  case Nil
  then show ?case using flatten_all_prefix[of "[]" acc fd] by simp
next
  case (Cons ext exts)
  then obtain row where row: "flatten_extraction ext = Inr row"
    and rest: "flatten_all exts (acc @ [row]) = Inr fd"
    by (auto simp: and_then_def split: sum.splits)
  from Cons.IH[OF rest] have len: "length fd = length acc + 1 + length exts"
    and ih: "\<forall>i<length exts. flatten_extraction (exts ! i) = Inr (fd ! (length acc + 1 + i))"
    by auto
  from flatten_all_prefix[OF rest] have "take (Suc (length acc)) fd = acc @ [row]" by simp
  then have "take (Suc (length acc)) fd ! length acc = row" by simp
  then have hd: "fd ! length acc = row" by simp
  show ?case
  proof (intro conjI allI impI)
    show "length fd = length acc + length (ext # exts)" using len by simp
  next
    fix i assume "i < length (ext # exts)"
    then show "flatten_extraction ((ext # exts) ! i) = Inr (fd ! (length acc + i))"
      using ih row hd by (cases i) auto
  qed
qed

lemma foldl_add_column_set: "set (foldl add_column acc ks) = set acc \<union> set ks"
  by (induction ks arbitrary: acc) (auto simp: add_column_def)

lemma foldl_add_column_distinct: "distinct acc \<Longrightarrow> distinct (foldl add_column acc ks)"
  by (induction ks arbitrary: acc) (auto simp: add_column_def)

lemma frame_columns_set: "set (frame_columns fd) = (\<Union>row\<in>set fd. fst ` set row)"
  by (auto simp: frame_columns_def foldl_add_column_set)

lemma frame_columns_distinct: "distinct (frame_columns fd)"
  by (simp add: frame_columns_def foldl_add_column_distinct)

lemma world_flat:
  "results_extractions world_results =
     Inr [PDict [(''class'', PStr ''Invoice''), (''text'', PStr ''INV-1''),
                 (''attributes'', PDict [(''total'', PInt 30)]), (''confidence'', PNone)],
          PDict [(''class'', PStr ''Vendor''), (''text'', PStr ''Acme''),
                 (''attributes'', PDict [(''city'', PStr ''Oslo'')]), (''confidence'', PNone)]]
   \<and> flatten_all
        [PDict [(''class'', PStr ''Invoice''), (''text'', PStr ''INV-1''),
                 (''attributes'', PDict [(''total'', PInt 30)]), (''confidence'', PNone)],
          PDict [(''class'', PStr ''Vendor''), (''text'', PStr ''Acme''),
                 (''attributes'', PDict [(''city'', PStr ''Oslo'')]), (''confidence'', PNone)]] [] =
     Inr [[(''class'', PStr ''Invoice''), (''text'', PStr ''INV-1''), (''confidence'', PNone),
           (''attr_total'', PInt 30)],
          [(''class'', PStr ''Vendor''), (''text'', PStr ''Acme''), (''confidence'', PNone),
           (''attr_city'', PStr ''Oslo'')]]"
  by (simp add: results_extractions_def world_results_def and_then_def flatten_extraction_def
      attr_column_def)

lemma world_frame:
  "frame_columns
     [[(''class'', PStr ''Invoice''), (''text'', PStr ''INV-1''), (''confidence'', PNone),
       (''attr_total'', PInt 30)],
      [(''class'', PStr ''Vendor''), (''text'', PStr ''Acme''), (''confidence'', PNone),
       (''attr_city'', PStr ''Oslo'')]] =
     [''class'', ''text'', ''confidence'', ''attr_total'', ''attr_city'']"
  by (simp add: frame_columns_def add_column_def)

lemma world_out:
  "mkdir_parents world_fs (path_parent ''out/r.csv'') = (world_fs, None)
   \<and> open_w world_fs ''out/r.csv'' =
       Inr (world_fs\<lparr>fs_files := fs_files world_fs @ [(''out/r.csv'', Truncated)]\<rparr>)"
  by (simp add: mkdir_parents_def path_parent_def path_chain_def dir_exists_def world_fs_def
      open_w_def)

text \<open>
  Claim C4, as amended. For a result saved as csv, the row built for an item has
  exactly the keys \<open>class\<close>, \<open>text\<close>, \<open>confidence\<close> and \<open>attr_<key>\<close> for every
  attribute key of that item. The rows go into one table: its columns are the keys of
  all rows, each once, and a row has a missing value in every column whose key its
  item does not have.
\<close>

theorem csv_table_columns:
  "py_lower fmt = ''csv'' \<and> results_extractions results = Inr exts
   \<and> flatten_all exts [] = Inr flat_data \<longrightarrow>
     length flat_data = length exts
     \<and> (\<forall>i<length exts. \<exists>items.
           py_get (exts ! i) ''attributes'' (PDict []) = Inr (PDict items)
           \<and> fst ` set (flat_data ! i) =
               {''class'', ''text'', ''confidence''} \<union> attr_column ` fst ` set items)
     \<and> distinct (frame_columns flat_data)
     \<and> set (frame_columns flat_data) = (\<Union>row\<in>set flat_data. fst ` set row)
     \<and> frame_rows flat_data =
         map (\<lambda>row. map (map_of row) (frame_columns flat_data)) flat_data
     \<and> (\<forall>row\<in>set flat_data. \<forall>c\<in>set (frame_columns flat_data).
           map_of row c = None \<longleftrightarrow> c \<notin> fst ` set row)
     \<and> (mkdir_parents fs (path_parent p) = (fs1, None) \<and> open_w fs1 p = Inr fs2 \<longrightarrow>
           save_results fs results p fmt =
             (put_data fs2 p (CsvTable (frame_columns flat_data) (frame_rows flat_data)),
              Inr True))"
proof (intro impI)
  assume a: "py_lower fmt = ''csv'' \<and> results_extractions results = Inr exts
   \<and> flatten_all exts [] = Inr flat_data"
  then have fl: "flatten_all exts [] = Inr flat_data" by simp
  have nj: "py_lower fmt \<noteq> ''json''" "py_lower fmt \<noteq> ''jsonl''" using a by auto
  have 1: "length flat_data = length exts"
    using flatten_all_rows[OF fl] by simp
  have 2: "\<forall>i<length exts. \<exists>items.
           py_get (exts ! i) ''attributes'' (PDict []) = Inr (PDict items)
           \<and> fst ` set (flat_data ! i) =
               {''class'', ''text'', ''confidence''} \<union> attr_column ` fst ` set items"
    using flatten_all_rows[OF fl] flatten_extraction_keys by simp
  have 3: "\<forall>row\<in>set flat_data. \<forall>c\<in>set (frame_columns flat_data).
           map_of row c = None \<longleftrightarrow> c \<notin> fst ` set row"
    by (simp add: map_of_eq_None_iff)
  have 4: "mkdir_parents fs (path_parent p) = (fs1, None) \<and> open_w fs1 p = Inr fs2 \<longrightarrow>
           save_results fs results p fmt =
             (put_data fs2 p (CsvTable (frame_columns flat_data) (frame_rows flat_data)),
              Inr True)"
    using a nj by (simp add: save_results_def write_format_def and_then_def data_frame_def)
  show "length flat_data = length exts
     \<and> (\<forall>i<length exts. \<exists>items.
           py_get (exts ! i) ''attributes'' (PDict []) = Inr (PDict items)
           \<and> fst ` set (flat_data ! i) =
               {''class'', ''text'', ''confidence''} \<union> attr_column ` fst ` set items)
     \<and> distinct (frame_columns flat_data)
     \<and> set (frame_columns flat_data) = (\<Union>row\<in>set flat_data. fst ` set row)
     \<and> frame_rows flat_data =
         map (\<lambda>row. map (map_of row) (frame_columns flat_data)) flat_data
     \<and> (\<forall>row\<in>set flat_data. \<forall>c\<in>set (frame_columns flat_data).
           map_of row c = None \<longleftrightarrow> c \<notin> fst ` set row)
     \<and> (mkdir_parents fs (path_parent p) = (fs1, None) \<and> open_w fs1 p = Inr fs2 \<longrightarrow>
           save_results fs results p fmt =
             (put_data fs2 p (CsvTable (frame_columns flat_data) (frame_rows flat_data)),
              Inr True))"
    using 1 2 3 4 frame_columns_distinct[of flat_data] frame_columns_set[of flat_data]
    by (simp add: frame_rows_def)
qed

text \<open>
  Claim C4 as stated fails: two items, one with the attribute \<open>total\<close> only and one
  with \<open>city\<close> only, are saved as one table with both attribute columns, and each row
  has a field, left empty, in the column of the other item's key.
\<close>

theorem two_items_one_header:
  "snd (save_results world_fs world_results ''out/r.csv'' ''csv'') = Inr True
   \<and> map_of (fs_files (fst (save_results world_fs world_results ''out/r.csv'' ''csv'')))
        ''out/r.csv'' =
       Some (CsvTable [''class'', ''text'', ''confidence'', ''attr_total'', ''attr_city'']
               [[Some (PStr ''Invoice''), Some (PStr ''INV-1''), Some PNone,
                 Some (PInt 30), None],
                [Some (PStr ''Vendor''), Some (PStr ''Acme''), Some PNone,
                 None, Some (PStr ''Oslo'')]])"
proof -
  have l: "py_lower ''csv'' = ''csv''" by (simp add: py_lower_def py_lower_char_def)
  show ?thesis
    using world_flat world_frame world_out
    by (simp add: save_results_def write_format_def l and_then_def data_frame_def
        frame_rows_def put_data_def world_fs_def)
qed

theorem csv_table_columns_witness:
  "save_results world_fs world_results ''out/r.csv'' ''csv'' =
     (put_data (world_fs\<lparr>fs_files := fs_files world_fs @ [(''out/r.csv'', Truncated)]\<rparr>)
        ''out/r.csv''
        (CsvTable [''class'', ''text'', ''confidence'', ''attr_total'', ''attr_city'']
           (frame_rows
              [[(''class'', PStr ''Invoice''), (''text'', PStr ''INV-1''),
                (''confidence'', PNone), (''attr_total'', PInt 30)],
               [(''class'', PStr ''Vendor''), (''text'', PStr ''Acme''),
                (''confidence'', PNone), (''attr_city'', PStr ''Oslo'')]])),
      Inr True)"
proof -
  let ?exts = "[PDict [(''class'', PStr ''Invoice''), (''text'', PStr ''INV-1''),
                 (''attributes'', PDict [(''total'', PInt 30)]), (''confidence'', PNone)],
          PDict [(''class'', PStr ''Vendor''), (''text'', PStr ''Acme''),
                 (''attributes'', PDict [(''city'', PStr ''Oslo'')]), (''confidence'', PNone)]]"
  let ?fd = "[[(''class'', PStr ''Invoice''), (''text'', PStr ''INV-1''),
                (''confidence'', PNone), (''attr_total'', PInt 30)],
               [(''class'', PStr ''Vendor''), (''text'', PStr ''Acme''),
                (''confidence'', PNone), (''attr_city'', PStr ''Oslo'')]]"
  let ?fs2 = "world_fs\<lparr>fs_files := fs_files world_fs @ [(''out/r.csv'', Truncated)]\<rparr>"
  have l: "py_lower ''csv'' = ''csv''" by (simp add: py_lower_def py_lower_char_def)
  have h: "py_lower ''csv'' = ''csv'' \<and> results_extractions world_results = Inr ?exts
     \<and> flatten_all ?exts [] = Inr ?fd"
    using l world_flat by simp
  have o: "mkdir_parents world_fs (path_parent ''out/r.csv'') = (world_fs, None)
     \<and> open_w world_fs ''out/r.csv'' = Inr ?fs2"
    using world_out by simp
  from csv_table_columns[of "''csv''" world_results ?exts ?fd world_fs "''out/r.csv''"
      world_fs ?fs2, THEN mp, OF h]
  have "mkdir_parents world_fs (path_parent ''out/r.csv'') = (world_fs, None)
     \<and> open_w world_fs ''out/r.csv'' = Inr ?fs2 \<longrightarrow>
       save_results world_fs world_results ''out/r.csv'' ''csv'' =
         (put_data ?fs2 ''out/r.csv'' (CsvTable (frame_columns ?fd) (frame_rows ?fd)), Inr True)"
    by blast
  with o world_frame show ?thesis by simp
qed

section \<open>Properties of saving in other formats\<close>

lemma save_results_returns: "\<exists>b. snd (save_results fs results p fmt) = Inr b"
  by (auto simp: save_results_def split: prod.splits option.splits)

lemma save_results_false_on_failure:
  "(mkdir_parents fs (path_parent p) = (fs1, Some e) \<longrightarrow>
      save_results fs results p fmt = (fs1, Inr False))
   \<and> (mkdir_parents fs (path_parent p) = (fs1, None)
        \<and> write_format fs1 results p fmt = (fs2, Some e) \<longrightarrow>
      save_results fs results p fmt = (fs2, Inr False))"
  by (simp add: save_results_def)

lemma save_results_other_format:
  assumes "py_lower fmt \<noteq> ''json''" "py_lower fmt \<noteq> ''jsonl''" "py_lower fmt \<noteq> ''csv''"
    and "mkdir_parents fs (path_parent p) = (fs1, None)"
  shows "save_results fs results p fmt = (fs1, Inr True)"
  using assms by (simp add: save_results_def write_format_def)

text \<open>
  Claim C5 does not hold of the code. For a format that is none of \<open>json\<close>,
  \<open>jsonl\<close> and \<open>csv\<close>, \<open>save_results\<close> creates the parent directories, writes no
  file, and returns true: here for \<open>xml\<close> under a directory that does not exist yet,
  and for \<open>html\<close>, which the command line accepts.
\<close>

theorem unsupported_format_returns_true:
  "save_results world_fs world_results ''reports/new/r.xml'' ''xml'' =
     (world_fs\<lparr>fs_dirs := [''in'', ''out'', ''reports'', ''reports/new'']\<rparr>, Inr True)
   \<and> save_results world_fs world_results ''out/r.html'' ''html'' = (world_fs, Inr True)
   \<and> ''reports/new/r.xml'' \<notin> fst ` set (fs_files world_fs)
   \<and> ''out/r.html'' \<notin> fst ` set (fs_files world_fs)"
  by (simp add: save_results_def write_format_def py_lower_def py_lower_char_def
      mkdir_parents_def path_parent_def path_chain_def dir_exists_def world_fs_def)

section \<open>Properties of the batch run\<close>

lemma extracted_text_nonempty:
  assumes "extract_text fs libs p = Inr r"
  shows "res_text r \<noteq> []"
proof -
  have "py_strip (res_text r) \<noteq> []" using extract_text_cases[OF assms] by simp
  then show ?thesis by (auto simp: py_strip_def)
qed

lemma batch_item_outcome:
  "outcome_file (snd (batch_item libs env m tc od fmt fs f)) = PStr (path_name f)
   \<and> outcome_status (snd (batch_item libs env m tc od fmt fs f)) \<in>
       {PStr ''success'', PStr ''save_failed'', PStr ''error''}"
  by (auto simp: batch_item_def outcome_file_def outcome_status_def error_outcome_def Let_def
      dest: extracted_text_nonempty split: sum.splits prod.splits)

lemma batch_loop_outcomes:
  "batch_loop libs env m tc od fmt fs files acc = (fs', summary) \<Longrightarrow>
   map outcome_file summary = map outcome_file acc @ map (\<lambda>f. PStr (path_name f)) files
   \<and> (\<forall>r\<in>set summary. r \<in> set acc
         \<or> outcome_status r \<in> {PStr ''success'', PStr ''save_failed'', PStr ''error''})"
proof (induction files arbitrary: fs acc)
  case Nil
  then show ?case by simp
next
  case (Cons f files)
  obtain fs1 out where i: "batch_item libs env m tc od fmt fs f = (fs1, out)"
    by (cases "batch_item libs env m tc od fmt fs f")
  with Cons.prems have r: "batch_loop libs env m tc od fmt fs1 files (acc @ [out]) = (fs', summary)"
    by simp
  from batch_item_outcome[of libs env m tc od fmt fs f] i
  have o: "outcome_file out = PStr (path_name f)"
    "outcome_status out \<in> {PStr ''success'', PStr ''save_failed'', PStr ''error''}"
    by simp_all
  from Cons.IH[OF r] o show ?case by auto
qed

lemma batch_never_failed:
  assumes "snd (batch libs env m tc od fmt fs files) = Inr summary"
  shows "map outcome_file summary = map (\<lambda>f. PStr (path_name f)) files
     \<and> (\<forall>r\<in>set summary. outcome_status r \<noteq> PStr ''failed'')"
proof -
  obtain fs1 s where l: "batch_loop libs env m tc od fmt fs files [] = (fs1, s)"
    by (cases "batch_loop libs env m tc od fmt fs files []")
  with assms have "s = summary"
    by (auto simp: batch_def Let_def split: sum.splits if_splits)
  with batch_loop_outcomes[OF l] show ?thesis by auto
qed

text \<open>
  Claim C3 does not hold of the code. Of five files the third has no text under any
  strategy; \<open>extract_text\<close> raises for it, the handler of the loop records the status
  \<open>error\<close> with the message of that exception, and the four other files are processed.
  The branch that records \<open>failed\<close> is never taken, as \<open>batch_never_failed\<close> shows
  for every run.
\<close>

theorem batch_third_file_error:
  "snd (batch world_libs world_env ''gemini-2.5-flash'' world_template ''out'' ''json''
          world_fs world_pdfs) =
     Inr [PDict [(''file'', PStr ''a.pdf''), (''status'', PStr ''success''),
                 (''extractions'', PInt 2), (''output_file'', PStr ''out/a_extracted.json'')],
          PDict [(''file'', PStr ''b.pdf''), (''status'', PStr ''success''),
                 (''extractions'', PInt 2), (''output_file'', PStr ''out/b_extracted.json'')],
          PDict [(''file'', PStr ''c.pdf''), (''status'', PStr ''error''),
                 (''error'', PStr ''Failed to extract text from PDF: in/c.pdf'')],
          PDict [(''file'', PStr ''d.pdf''), (''status'', PStr ''success''),
                 (''extractions'', PInt 2), (''output_file'', PStr ''out/d_extracted.json'')],
          PDict [(''file'', PStr ''e.pdf''), (''status'', PStr ''success''),
                 (''extractions'', PInt 2), (''output_file'', PStr ''out/e_extracted.json'')]]
   \<and> map fst (fs_files (fst (batch world_libs world_env ''gemini-2.5-flash'' world_template
          ''out'' ''json'' world_fs world_pdfs))) =
       [''in/a.pdf'', ''in/b.pdf'', ''in/c.pdf'', ''in/d.pdf'', ''in/e.pdf'',
        ''out/a_extracted.json'', ''out/b_extracted.json'', ''out/d_extracted.json'',
        ''out/e_extracted.json'', ''out/batch_summary.json'']"
  by (simp add: batch_def batch_item_def world_pdfs_def world_fs_def world_libs_def
      world_env_def world_template_def extract_text_def extract_text_with_def
      extraction_methods_def path_exists_def dir_exists_def path_suffix_def path_name_def path_stem_def
      path_join_def path_parent_def path_chain_def py_lower_def py_lower_char_def
      extract_with_pdfplumber_def extract_with_pymupdf_def extract_with_pypdf2_def
      py_strip_def py_isspace_def page_block_def page_sep_def py_str_nat.simps digit_char_def
      extract_with_template_def extract_with_template_try_def and_then_def
      convert_example_def extract_from_text_def extract_from_text_try_def
      call_langextract_def make_request_def process_results_def normalise_item_def
      save_results_def write_format_def mkdir_parents_def dir_exists_def open_w_def
      put_data_def error_outcome_def Let_def)

end
